theory Spec2Isabelle
  imports Main
begin

section \<open>The bootstrap of golemapp.py\<close>

text \<open>
  The script is modelled by explicit state passing. The process state holds what the
  script itself reads and writes (\<open>sys.modules\<close>, \<open>sys.argv\<close>, the default logger
  class of the \<open>logging\<close> package, \<open>PROTOCOL_CONST.ID\<close>) and a log of the effects it
  performs, in the order it performs them. Calls into other packages are entries of
  that log; what such a call returns is a field of the environment record, so every
  theorem holds for whatever the other packages do.
\<close>

subsection \<open>Values\<close>

datatype exn =
    ValueError
  | IndexError
  | TypeError
  | KeyError string
  | ImportError string
  | ConfigLoadError
  | UsageError string

text \<open>A value of \<open>sys.modules\<close>: a module object, or \<open>None\<close>.\<close>

datatype modentry = PyNone | ModuleObj

text \<open>The object \<open>argsparser.parse_rpc_address\<close> hands to \<open>start\<close>: \<open>.address\<close> and \<open>.port\<close>.\<close>

record SocketAddress =
  address :: string
  port :: int

text \<open>
  \<open>ClientConfigDescriptor\<close>: the three attributes the script assigns; every other
  attribute is the extension part of the record. (The prefix keeps the field names
  apart from the parameters of \<open>start\<close>.)
\<close>

record ClientConfigDescriptor =
  cd_rpc_address :: string
  cd_rpc_port :: int
  cd_node_address :: string

text \<open>The keyword arguments of \<open>Node(...)\<close>, lines 132-140.\<close>

record 'x node_kwargs =
  kw_datadir :: string
  kw_config_desc :: "'x ClientConfigDescriptor_scheme"
  kw_transaction_system :: bool
  kw_peers :: "SocketAddress list"
  kw_use_monitor :: bool
  kw_start_geth :: bool
  kw_start_geth_port :: "int option"
  kw_geth_address :: "string option"

subsection \<open>Effects and the process state\<close>

datatype 'x event =
    FreezeSupport
  | ModulesDel string
  | ModulesSet string modentry
  | Print string
  | NewClientConfigDescriptor
  | LoadConfig string
  | InitFromAppConfig
  | ConfigLogging string "string option"
  | InstallReactor
  | LoggerInfo string "string list"
  | NodeInit "'x node_kwargs"
  | NodeStart
  | ImportModule string
  | ModuleRun string

record 'x proc =
  sys_modules :: "string \<rightharpoonup> modentry"
  sys_argv :: "string list"
  logger_class :: string
  PROTOCOL_CONST_ID :: string
  trace :: "'x event list"

text \<open>
  What the imported packages return. \<open>load_config\<close> is \<open>AppConfig.load_config\<close>, which
  may raise; \<open>new_config_desc\<close> is the object \<open>ClientConfigDescriptor()\<close> builds, and
  \<open>init_from_app_config\<close> its method; \<open>importable\<close> says whether
  \<open>importlib.import_module\<close> finds the module; \<open>protocol_id_str\<close> is the value
  \<open>PROTOCOL_CONST.ID\<close> takes for a protocol id; \<open>py_int\<close> is Python's \<open>int\<close> on a string
  (\<open>None\<close> where it raises) and \<open>path_ok\<close> says whether a path is no file and can be
  written, the check of \<open>click.Path(file_okay=False, writable=True)\<close>.
\<close>

record ('c, 'x) env =
  golem_version :: string
  golem_messages_version :: string
  load_config :: "string \<Rightarrow> exn + 'c"
  new_config_desc :: "'x ClientConfigDescriptor_scheme"
  init_from_app_config :: "'x ClientConfigDescriptor_scheme \<Rightarrow> 'c \<Rightarrow> 'x ClientConfigDescriptor_scheme"
  importable :: "string \<Rightarrow> bool"
  protocol_id_str :: "int \<Rightarrow> string"
  py_int :: "string \<Rightarrow> int option"
  path_ok :: "string \<Rightarrow> bool"
  platform_system :: string
  platform_release :: string
  platform_version :: string
  platform_machine :: string
  cpuinfo :: "string \<rightharpoonup> string"
  mem_total :: nat
  swap_total :: nat
  naturalsize :: "nat \<Rightarrow> string"

definition emit :: "'x event \<Rightarrow> 'x proc \<Rightarrow> 'x proc" where
  "emit ev p = p\<lparr>trace := trace p @ [ev]\<rparr>"

text \<open>\<open>sys.modules[name] = v\<close> and \<open>del sys.modules[name]\<close>.\<close>

definition modules_set :: "string \<Rightarrow> modentry \<Rightarrow> 'x proc \<Rightarrow> 'x proc" where
  "modules_set name v p =
     emit (ModulesSet name v) (p\<lparr>sys_modules := (sys_modules p)(name \<mapsto> v)\<rparr>)"

definition modules_del :: "string \<Rightarrow> 'x proc \<Rightarrow> 'x proc" where
  "modules_del name p =
     emit (ModulesDel name) (p\<lparr>sys_modules := (sys_modules p)(name := None)\<rparr>)"

subsection \<open>Python's list operations\<close>

text \<open>\<open>xs.index(x)\<close>: the first position of \<open>x\<close>; \<open>None\<close> where Python raises ValueError.\<close>

fun list_index :: "'a \<Rightarrow> 'a list \<Rightarrow> nat option" where
  "list_index x [] = None"
| "list_index x (y # ys) =
     (if x = y then Some 0
      else case list_index x ys of None \<Rightarrow> None | Some i \<Rightarrow> Some (Suc i))"

text \<open>\<open>xs.pop(i)\<close> for \<open>i \<ge> 0\<close>: the list without position \<open>i\<close>; out of range raises.\<close>

definition list_pop :: "nat \<Rightarrow> 'a list \<Rightarrow> exn + 'a list" where
  "list_pop i xs = (if i < length xs then Inr (take i xs @ drop (Suc i) xs) else Inl IndexError)"

subsection \<open>The functions of the script\<close>

text \<open>Lines 145-147.\<close>

definition delete_reactor :: "'x proc \<Rightarrow> 'x proc" where
  "delete_reactor p =
     (if ''twisted.internet.reactor'' \<in> dom (sys_modules p)
      then modules_del ''twisted.internet.reactor'' p
      else p)"

text \<open>
  Lines 150-161. \<open>sys.argv.index\<close> raises ValueError when \<open>-m\<close> is not an element, the
  second \<open>pop\<close> raises IndexError when \<open>-m\<close> was the last element, \<open>remove\<close> deletes the
  first \<open>-u\<close> only, and \<open>import_module\<close> raises ImportError.
\<close>

definition start_crossbar_worker ::
  "('c, 'x) env \<Rightarrow> string \<Rightarrow> 'x proc \<Rightarrow> (exn + unit) \<times> 'x proc" where
  "start_crossbar_worker e modname p =
     (case list_index ''-m'' (sys_argv p) of
        None \<Rightarrow> (Inl ValueError, p)
      | Some idx \<Rightarrow>
         (case list_pop idx (sys_argv p) of
            Inl x \<Rightarrow> (Inl x, p)
          | Inr argv1 \<Rightarrow>
             (case list_pop idx argv1 of
                Inl x \<Rightarrow> (Inl x, p\<lparr>sys_argv := argv1\<rparr>)
              | Inr argv2 \<Rightarrow>
                 (let argv3 = (if ''-u'' \<in> set argv2 then remove1 ''-u'' argv2 else argv2);
                      p3 = emit (ImportModule modname) (p\<lparr>sys_argv := argv3\<rparr>)
                  in if importable e modname
                     then (Inr (), emit (ModuleRun modname) p3)
                     else (Inl (ImportError modname), p3)))))"

text \<open>Lines 164-171.\<close>

definition log_golem_version :: "('c, 'x) env \<Rightarrow> 'x proc \<Rightarrow> 'x proc" where
  "log_golem_version e p =
     emit (LoggerInfo ''golem_messages Version: %s'' [golem_messages_version e])
       (emit (LoggerInfo ''Protocol Version: %s'' [PROTOCOL_CONST_ID p])
         (emit (LoggerInfo ''GOLEM Version: %s'' [golem_version e]) p))"

text \<open>Lines 174-190. A key missing from the dictionary of \<open>get_cpu_info()\<close> raises KeyError.\<close>

definition log_platform_info :: "('c, 'x) env \<Rightarrow> 'x proc \<Rightarrow> (exn + unit) \<times> 'x proc" where
  "log_platform_info e p =
     (let p1 = emit (LoggerInfo ''system: %s, release: %s, version: %s, machine: %s''
                  [platform_system e, platform_release e, platform_version e, platform_machine e]) p
      in case cpuinfo e ''vendor_id'' of
           None \<Rightarrow> (Inl (KeyError ''vendor_id''), p1)
         | Some vendor \<Rightarrow>
            (case cpuinfo e ''brand'' of
               None \<Rightarrow> (Inl (KeyError ''brand''), p1)
             | Some brand \<Rightarrow>
                (case cpuinfo e ''count'' of
                   None \<Rightarrow> (Inl (KeyError ''count''), p1)
                 | Some cnt \<Rightarrow>
                    (Inr (),
                     emit (LoggerInfo ''memory: %s, swap: %s''
                             [naturalsize e (mem_total e), naturalsize e (swap_total e)])
                       (emit (LoggerInfo ''cpu: %s %s, %s cores'' [vendor, brand, cnt]) p1)))))"

text \<open>
  Lines 99-142. The result is the value \<open>start\<close> returns (\<open>0\<close> on the version branch,
  \<open>None\<close> otherwise) or the exception that ends it. \<open>if rpc_address:\<close> is true of every
  object and false of \<open>None\<close>; \<open>if node_address:\<close> is false of \<open>None\<close> and of the empty
  string.
\<close>

definition start ::
  "('c, 'x) env \<Rightarrow> bool \<Rightarrow> bool \<Rightarrow> string \<Rightarrow> string option \<Rightarrow> SocketAddress option \<Rightarrow>
   SocketAddress list \<Rightarrow> bool \<Rightarrow> int option \<Rightarrow> string option \<Rightarrow> bool \<Rightarrow> string option \<Rightarrow>
   string option \<Rightarrow> 'x proc \<Rightarrow> (exn + int option) \<times> 'x proc" where
  "start e payments monitor datadir node_address rpc_address peer
         start_geth start_geth_port geth_address version m loglevel p0 =
     (let p1 = emit FreezeSupport p0;
          p2 = delete_reactor p1
      in if version
         then (Inr (Some 0), emit (Print (''GOLEM version: '' @ golem_version e)) p2)
         else
          (let p3 = modules_set ''win32com.gen_py.os'' PyNone p2;
               p4 = modules_set ''win32com.gen_py.pywintypes'' PyNone p3;
               p5 = modules_set ''win32com.gen_py.pythoncom'' PyNone p4;
               p6 = emit (LoadConfig datadir) (emit NewClientConfigDescriptor p5)
           in case load_config e datadir of
                Inl x \<Rightarrow> (Inl x, p6)
              | Inr app_config \<Rightarrow>
                 (let p7 = emit InitFromAppConfig p6;
                      config_desc0 = init_from_app_config e (new_config_desc e) app_config;
                      config_desc1 =
                        (case rpc_address of
                           None \<Rightarrow> config_desc0
                         | Some a \<Rightarrow> config_desc0\<lparr>cd_rpc_address := address a,
                                                     cd_rpc_port := port a\<rparr>);
                      config_desc =
                        (case node_address of
                           None \<Rightarrow> config_desc1
                         | Some a \<Rightarrow> if a = [] then config_desc1
                                     else config_desc1\<lparr>cd_node_address := a\<rparr>)
                  in if m = Some ''crossbar.worker.process''
                     then (case start_crossbar_worker e (the m) p7 of
                             (Inl x, p8) \<Rightarrow> (Inl x, p8)
                           | (Inr u, p8) \<Rightarrow> (Inr None, p8))
                     else
                      (let p8 = emit (ConfigLogging datadir loglevel) p7;
                           p9 = emit InstallReactor p8;
                           p10 = log_golem_version e p9
                       in case log_platform_info e p10 of
                            (Inl x, p11) \<Rightarrow> (Inl x, p11)
                          | (Inr u, p11) \<Rightarrow>
                             (Inr None,
                              emit NodeStart
                                (emit (NodeInit \<lparr>kw_datadir = datadir,
                                                 kw_config_desc = config_desc,
                                                 kw_transaction_system = payments,
                                                 kw_peers = peer,
                                                 kw_use_monitor = monitor,
                                                 kw_start_geth = start_geth,
                                                 kw_start_geth_port = start_geth_port,
                                                 kw_geth_address = geth_address\<rparr>) p11))))))"

text \<open>
  The state in which line 114 calls \<open>AppConfig.load_config\<close>: lines 101-102, 109-111
  and 113 have run. The lemmas about \<open>start\<close> are stated from it.
\<close>

definition config_requested :: "string \<Rightarrow> 'x proc \<Rightarrow> 'x proc" where
  "config_requested datadir p =
     emit (LoadConfig datadir)
       (emit NewClientConfigDescriptor
          (modules_set ''win32com.gen_py.pythoncom'' PyNone
             (modules_set ''win32com.gen_py.pywintypes'' PyNone
                (modules_set ''win32com.gen_py.os'' PyNone
                   (delete_reactor (emit FreezeSupport p))))))"

text \<open>
  Lines 116-120 as a function of the descriptor of line 114: what \<open>config_desc\<close> holds
  when line 122 is reached (lemma \<open>start_node\<close> relates it to \<open>start\<close>).
\<close>

definition cli_overlay ::
  "SocketAddress option \<Rightarrow> string option \<Rightarrow> 'x ClientConfigDescriptor_scheme \<Rightarrow>
   'x ClientConfigDescriptor_scheme" where
  "cli_overlay rpc_address node_address config_desc0 =
     (let config_desc1 =
            (case rpc_address of
               None \<Rightarrow> config_desc0
             | Some a \<Rightarrow> config_desc0\<lparr>cd_rpc_address := address a, cd_rpc_port := port a\<rparr>)
      in case node_address of
           None \<Rightarrow> config_desc1
         | Some a \<Rightarrow> if a = [] then config_desc1 else config_desc1\<lparr>cd_node_address := a\<rparr>)"

text \<open>
  Lines 29-39. \<open>orig_getLogger\<close> is \<open>slogging.SManager.getLogger\<close> as it stood when the
  script was imported: any function of its arguments and the process state that returns
  a logger or raises. An exception leaves through \<open>monkey_patched_getLogger\<close> before
  \<open>logging.setLoggerClass\<close> is reached.
\<close>

definition monkey_patched_getLogger ::
  "('a \<Rightarrow> 'x proc \<Rightarrow> (exn + 'r) \<times> 'x proc) \<Rightarrow> 'a \<Rightarrow> 'x proc \<Rightarrow> (exn + 'r) \<times> 'x proc" where
  "monkey_patched_getLogger orig_getLogger args p =
     (let orig_class = logger_class p
      in case orig_getLogger args p of
           (Inl x, p1) \<Rightarrow> (Inl x, p1)
         | (Inr result, p1) \<Rightarrow> (Inr result, p1\<lparr>logger_class := orig_class\<rparr>))"

subsection \<open>The options of the command\<close>

text \<open>
  Lines 42-98: the decorators of \<open>start\<close>, top to bottom. A parameter has the name under
  which its value reaches \<open>start\<close>, its type, the flags \<open>is_eager\<close> and \<open>expose_value\<close>,
  its callback and its default. The types are the ones the decorators give: a flag
  (\<open>is_flag\<close>, or a pair of switches) is boolean, \<open>click.INT\<close> and \<open>int\<close> are the integer
  type, \<open>click.Path\<close> and \<open>click.Choice\<close> are as written, and an option with no type is a
  string.
\<close>

datatype pyval =
    VNone
  | VBool bool
  | VInt int
  | VStr string
  | VAddr SocketAddress
  | VAddrs "SocketAddress list"

datatype ptype =
    BoolT
  | StringT
  | IntT
  | PathT
  | ChoiceT "string list"

datatype validator =
    PatchProtocolId
  | ParseNodeAddr
  | ParseRpcAddress
  | ParsePeer
  | EnforceStartGethUsed
  | ParseHttpAddr

record param =
  pname :: string
  param_type :: ptype
  is_eager :: bool
  expose_value :: bool
  callback :: "validator option"
  default_value :: pyval

definition click_option ::
  "string \<Rightarrow> ptype \<Rightarrow> bool \<Rightarrow> bool \<Rightarrow> validator option \<Rightarrow> pyval \<Rightarrow> param" where
  "click_option n ty eager expose cb dflt =
     \<lparr>pname = n, param_type = ty, is_eager = eager, expose_value = expose, callback = cb,
      default_value = dflt\<rparr>"

text \<open>\<open>local_datadir\<close> is what \<open>get_local_datadir('default')\<close> returned at import.\<close>

definition start_params :: "string \<Rightarrow> param list" where
  "start_params local_datadir =
     [click_option ''payments'' BoolT False True None (VBool True),
      click_option ''monitor'' BoolT False True None (VBool True),
      click_option ''datadir'' PathT False True None (VStr local_datadir),
      click_option ''protocol_id'' IntT True False (Some PatchProtocolId) VNone,
      click_option ''node_address'' StringT False True (Some ParseNodeAddr) VNone,
      click_option ''rpc_address'' StringT False True (Some ParseRpcAddress) VNone,
      click_option ''peer'' StringT False True (Some ParsePeer) (VAddrs []),
      click_option ''start_geth'' BoolT True True None (VBool False),
      click_option ''start_geth_port'' IntT False True (Some EnforceStartGethUsed) VNone,
      click_option ''geth_address'' StringT False True (Some ParseHttpAddr) VNone,
      click_option ''version'' BoolT False True None (VBool False),
      click_option ''m'' StringT False True None VNone,
      click_option ''node'' StringT False False None VNone,
      click_option ''klass'' StringT False False None VNone,
      click_option ''u'' BoolT False False None (VBool False),
      click_option ''multiprocessing_fork'' StringT False False None VNone,
      click_option ''cbdir'' StringT False False None VNone,
      click_option ''worker'' StringT False False None VNone,
      click_option ''type'' StringT False False None VNone,
      click_option ''realm'' StringT False False None VNone,
      click_option ''loglevel''
        (ChoiceT [''CRITICAL'', ''ERROR'', ''WARNING'', ''INFO'', ''DEBUG''])
        False True None VNone,
      click_option ''title'' StringT False False None VNone]"

subsection \<open>Parsing the command line\<close>

text \<open>
  Modelled from the spec: the order in which the parameters are resolved is click's,
  which is not among the sources. Section 4.3: flags marked eager are fully resolved
  before any other flag's validator runs. Inside each of the two groups the order is
  the one of the command line (\<open>invocation_order\<close>: the names as they were given), then
  the order of declaration for the parameters that were not given.
\<close>

definition iter_params_for_processing :: "string list \<Rightarrow> param list \<Rightarrow> param list" where
  "iter_params_for_processing invocation_order declaration_order =
     (let given = concat (map (\<lambda>n. [q \<leftarrow> declaration_order. pname q = n])
                            (rev (remdups (rev invocation_order))));
          absent = [q \<leftarrow> declaration_order. pname q \<notin> set invocation_order];
          ordered = given @ absent
      in [q \<leftarrow> ordered. is_eager q] @ [q \<leftarrow> ordered. \<not> is_eager q])"

text \<open>
  The state of a parse: \<open>ctx.params\<close>, the process state, and for every validator that
  ran the value of \<open>PROTOCOL_CONST.ID\<close> at the moment it ran.
\<close>

record 'x pstate =
  ctx_params :: "string \<rightharpoonup> pyval"
  seen :: "(validator \<times> string) list"
  process :: "'x proc"

text \<open>
  Modelled from the spec: \<open>PROTOCOL_CONST.patch_protocol_id\<close> (golem/core/variables.py
  is not among the sources). Section 4.3: the protocol-id flag patches a process-wide
  protocol-version constant.
\<close>

definition patch_protocol_id :: "('c, 'x) env \<Rightarrow> pyval \<Rightarrow> 'x proc \<Rightarrow> 'x proc" where
  "patch_protocol_id e v p =
     (case v of VInt n \<Rightarrow> p\<lparr>PROTOCOL_CONST_ID := protocol_id_str e n\<rparr> | _ \<Rightarrow> p)"

text \<open>
  Modelled from the spec: the type conversion of click (section 4.3: the parse fails
  with a UsageError when a flag value fails type conversion). A value given on the
  command line is a string or, for a flag, a boolean; \<open>None\<close> is a failed conversion.
  Booleans and strings always convert; the integer type takes an integer or a string
  that \<open>int\<close> accepts; a path must pass \<open>path_ok\<close>; a choice must be one of its words.
\<close>

definition convert :: "('c, 'x) env \<Rightarrow> ptype \<Rightarrow> pyval \<Rightarrow> pyval option" where
  "convert e ty v =
     (case ty of
        BoolT \<Rightarrow> Some v
      | StringT \<Rightarrow> Some v
      | IntT \<Rightarrow>
         (case v of
            VInt n \<Rightarrow> Some v
          | VStr t \<Rightarrow> (case py_int e t of None \<Rightarrow> None | Some n \<Rightarrow> Some (VInt n))
          | _ \<Rightarrow> None)
      | PathT \<Rightarrow>
         (case v of
            VStr t \<Rightarrow> if path_ok e t then Some v else None
          | _ \<Rightarrow> None)
      | ChoiceT words \<Rightarrow>
         (case v of
            VStr t \<Rightarrow> if t \<in> set words then Some v else None
          | _ \<Rightarrow> None))"

text \<open>
  Modelled from the spec: the value of a parameter is the converted value given on the
  command line, or the default when the option is not given; a conversion that fails
  is a UsageError that names the parameter.
\<close>

definition param_value :: "('c, 'x) env \<Rightarrow> (string \<rightharpoonup> pyval) \<Rightarrow> param \<Rightarrow> exn + pyval" where
  "param_value e opts q =
     (case opts (pname q) of
        None \<Rightarrow> Inr (default_value q)
      | Some given \<Rightarrow>
         (case convert e (param_type q) given of
            None \<Rightarrow> Inl (UsageError (pname q))
          | Some v \<Rightarrow> Inr v))"

text \<open>
  Modelled from the spec: \<open>argsparser.enforce_start_geth_used\<close> (golem/argsparser.py is
  not among the sources). Section 4.3: start-geth-port is valid only if start-geth is
  true; presence without start-geth is a validation failure. \<open>pn\<close> is the name of the
  parameter the callback is called for.
\<close>

definition enforce_start_geth_used ::
  "(string \<rightharpoonup> pyval) \<Rightarrow> string \<Rightarrow> pyval \<Rightarrow> exn + pyval" where
  "enforce_start_geth_used params pn v =
     (if v \<noteq> VNone \<and> params ''start_geth'' \<noteq> Some (VBool True)
      then Inl (UsageError pn) else Inr v)"

text \<open>
  Modelled from the spec: the call of a callback. The other four validators of
  golem/argsparser.py are a parameter \<open>V\<close>: any function of the validator, of
  \<open>PROTOCOL_CONST.ID\<close> as it stands and of the value, that returns the normalised value
  or fails (\<open>None\<close>: a UsageError, section 4.3).
\<close>

definition run_callback ::
  "('c, 'x) env \<Rightarrow> (validator \<Rightarrow> string \<Rightarrow> pyval \<Rightarrow> pyval option) \<Rightarrow> string \<Rightarrow> validator \<Rightarrow>
   pyval \<Rightarrow> 'x pstate \<Rightarrow> (exn + pyval) \<times> 'x pstate" where
  "run_callback e V pn cb v s =
     (if cb = PatchProtocolId
      then (Inr v, s\<lparr>process := patch_protocol_id e v (process s)\<rparr>)
      else
       (let s1 = s\<lparr>seen := seen s @ [(cb, PROTOCOL_CONST_ID (process s))]\<rparr>
        in if cb = EnforceStartGethUsed
           then (enforce_start_geth_used (ctx_params s) pn v, s1)
           else (case V cb (PROTOCOL_CONST_ID (process s)) v of
                   None \<Rightarrow> (Inl (UsageError pn), s1)
                 | Some v1 \<Rightarrow> (Inr v1, s1))))"

text \<open>
  Modelled from the spec: how click resolves one parameter, and all of them in order
  (section 4.3). The value given is converted to the type of the parameter (the default
  is taken as it is), the callback runs on it, and the outcome is stored in
  \<open>ctx.params\<close> when the parameter exposes its value; the first failure ends the parse.
\<close>

definition handle_parse_result ::
  "('c, 'x) env \<Rightarrow> (validator \<Rightarrow> string \<Rightarrow> pyval \<Rightarrow> pyval option) \<Rightarrow> (string \<rightharpoonup> pyval) \<Rightarrow>
   param \<Rightarrow> 'x pstate \<Rightarrow> (exn + unit) \<times> 'x pstate" where
  "handle_parse_result e V opts q s =
     (case param_value e opts q of
        Inl x \<Rightarrow> (Inl x, s)
      | Inr v \<Rightarrow>
         (case (case callback q of
                  None \<Rightarrow> (Inr v, s)
                | Some cb \<Rightarrow> run_callback e V (pname q) cb v s) of
            (Inl x, s1) \<Rightarrow> (Inl x, s1)
          | (Inr v1, s1) \<Rightarrow>
             (Inr (), if expose_value q
                      then s1\<lparr>ctx_params := (ctx_params s1)(pname q \<mapsto> v1)\<rparr>
                      else s1)))"

fun process_params ::
  "('c, 'x) env \<Rightarrow> (validator \<Rightarrow> string \<Rightarrow> pyval \<Rightarrow> pyval option) \<Rightarrow> (string \<rightharpoonup> pyval) \<Rightarrow>
   param list \<Rightarrow> 'x pstate \<Rightarrow> (exn + unit) \<times> 'x pstate" where
  "process_params e V opts [] s = (Inr (), s)"
| "process_params e V opts (q # qs) s =
     (case handle_parse_result e V opts q s of
        (Inl x, s1) \<Rightarrow> (Inl x, s1)
      | (Inr u, s1) \<Rightarrow> process_params e V opts qs s1)"

definition parse_args ::
  "('c, 'x) env \<Rightarrow> (validator \<Rightarrow> string \<Rightarrow> pyval \<Rightarrow> pyval option) \<Rightarrow> string \<Rightarrow> string list \<Rightarrow>
   (string \<rightharpoonup> pyval) \<Rightarrow> 'x proc \<Rightarrow> (exn + unit) \<times> 'x pstate" where
  "parse_args e V local_datadir invocation_order opts p =
     process_params e V opts
       (iter_params_for_processing invocation_order (start_params local_datadir))
       \<lparr>ctx_params = Map.empty, seen = [], process = p\<rparr>"

text \<open>The values of \<open>ctx.params\<close> as the arguments of \<open>start\<close>.\<close>

definition as_bool :: "pyval option \<Rightarrow> bool" where
  "as_bool v = (case v of Some (VBool b) \<Rightarrow> b | _ \<Rightarrow> False)"

definition as_str :: "pyval option \<Rightarrow> string" where
  "as_str v = (case v of Some (VStr t) \<Rightarrow> t | _ \<Rightarrow> [])"

definition as_str_opt :: "pyval option \<Rightarrow> string option" where
  "as_str_opt v = (case v of Some (VStr t) \<Rightarrow> Some t | _ \<Rightarrow> None)"

definition as_int_opt :: "pyval option \<Rightarrow> int option" where
  "as_int_opt v = (case v of Some (VInt n) \<Rightarrow> Some n | _ \<Rightarrow> None)"

definition as_addr_opt :: "pyval option \<Rightarrow> SocketAddress option" where
  "as_addr_opt v = (case v of Some (VAddr a) \<Rightarrow> Some a | _ \<Rightarrow> None)"

definition as_addrs :: "pyval option \<Rightarrow> SocketAddress list" where
  "as_addrs v = (case v of Some (VAddrs xs) \<Rightarrow> xs | _ \<Rightarrow> [])"

text \<open>
  Lines 193-194, \<open>start()\<close>. Modelled from the spec (sections 4.3 and 7) as far as click
  is concerned: the command parses its options and, when every validator passed, calls
  the function with \<open>ctx.params\<close>; a UsageError ends the process before the function is
  entered.
\<close>

definition main ::
  "('c, 'x) env \<Rightarrow> (validator \<Rightarrow> string \<Rightarrow> pyval \<Rightarrow> pyval option) \<Rightarrow> string \<Rightarrow> string list \<Rightarrow>
   (string \<rightharpoonup> pyval) \<Rightarrow> 'x proc \<Rightarrow> (exn + int option) \<times> 'x proc" where
  "main e V local_datadir invocation_order opts p =
     (case parse_args e V local_datadir invocation_order opts p of
        (Inl x, s) \<Rightarrow> (Inl x, process s)
      | (Inr u, s) \<Rightarrow>
         start e (as_bool (ctx_params s ''payments''))
                 (as_bool (ctx_params s ''monitor''))
                 (as_str (ctx_params s ''datadir''))
                 (as_str_opt (ctx_params s ''node_address''))
                 (as_addr_opt (ctx_params s ''rpc_address''))
                 (as_addrs (ctx_params s ''peer''))
                 (as_bool (ctx_params s ''start_geth''))
                 (as_int_opt (ctx_params s ''start_geth_port''))
                 (as_str_opt (ctx_params s ''geth_address''))
                 (as_bool (ctx_params s ''version''))
                 (as_str_opt (ctx_params s ''m''))
                 (as_str_opt (ctx_params s ''loglevel''))
                 (process s))"

subsection \<open>A concrete environment, for the examples\<close>

definition env0 :: "(unit, unit) env" where
  "env0 =
     \<lparr>golem_version = ''0.8.1'',
      golem_messages_version = ''1.0.0'',
      load_config = (\<lambda>d. Inr ()),
      new_config_desc = \<lparr>cd_rpc_address = [], cd_rpc_port = 0, cd_node_address = []\<rparr>,
      init_from_app_config =
        (\<lambda>d c. d\<lparr>cd_rpc_address := ''localhost'', cd_rpc_port := 61000,
                   cd_node_address := ''10.0.0.1''\<rparr>),
      importable = (\<lambda>n. True),
      protocol_id_str = (\<lambda>n. if n = 31 then ''31'' else ''30''),
      py_int = (\<lambda>t. if t = ''31'' then Some 31 else if t = ''8545'' then Some 8545 else None),
      path_ok = (\<lambda>t. True),
      platform_system = ''Linux'',
      platform_release = ''4.4.0'',
      platform_version = ''#1 SMP'',
      platform_machine = ''x86_64'',
      cpuinfo = [''vendor_id'' \<mapsto> ''GenuineIntel'', ''brand'' \<mapsto> ''Core'', ''count'' \<mapsto> ''4''],
      mem_total = 8589934592,
      swap_total = 0,
      naturalsize = (\<lambda>n. if n = 0 then ''0 Bytes'' else ''8.0 GiB'')\<rparr>"

definition proc0 :: "unit proc" where
  "proc0 =
     \<lparr>sys_modules = [''twisted.internet.reactor'' \<mapsto> ModuleObj,
                     ''win32com.gen_py.os'' \<mapsto> ModuleObj],
      sys_argv = [''golemapp'', ''-m'', ''crossbar.worker.process'', ''-u'', ''extra''],
      logger_class = ''logging.Logger'',
      PROTOCOL_CONST_ID = ''30'',
      trace = []\<rparr>"

text \<open>An accessor that overrides the default logger class, as \<open>SManager.getLogger\<close> does.\<close>

definition overriding_getLogger :: "string \<Rightarrow> unit proc \<Rightarrow> (exn + string) \<times> unit proc" where
  "overriding_getLogger name p = (Inr name, p\<lparr>logger_class := ''ethereum.slogging.SLogger''\<rparr>)"

text \<open>
  An accessor that overrides the default logger class and then raises, as
  \<open>SManager.getLogger\<close> does for a name that is not a string.
\<close>

definition raising_getLogger :: "int \<Rightarrow> unit proc \<Rightarrow> (exn + string) \<times> unit proc" where
  "raising_getLogger name p = (Inl TypeError, p\<lparr>logger_class := ''ethereum.slogging.SLogger''\<rparr>)"

text \<open>An environment whose configuration store cannot be read.\<close>

definition env_unreadable :: "(unit, unit) env" where
  "env_unreadable = env0\<lparr>load_config := (\<lambda>d. Inl ConfigLoadError)\<rparr>"

text \<open>Validators that accept every value as it is.\<close>

definition accept_all :: "validator \<Rightarrow> string \<Rightarrow> pyval \<Rightarrow> pyval option" where
  "accept_all cb c v = Some v"

section \<open>Properties\<close>

subsection \<open>Effects of the single steps\<close>

lemma trace_emit: "trace (emit ev p) = trace p @ [ev]"
  by (simp add: emit_def)

lemma sys_argv_emit: "sys_argv (emit ev p) = sys_argv p"
  by (simp add: emit_def)

lemma PROTOCOL_CONST_ID_emit: "PROTOCOL_CONST_ID (emit ev p) = PROTOCOL_CONST_ID p"
  by (simp add: emit_def)

lemma sys_modules_emit: "sys_modules (emit ev p) = sys_modules p"
  by (simp add: emit_def)

lemma trace_log_golem_version:
  "trace (log_golem_version e p) =
     trace p @ [LoggerInfo ''GOLEM Version: %s'' [golem_version e],
                LoggerInfo ''Protocol Version: %s'' [PROTOCOL_CONST_ID p],
                LoggerInfo ''golem_messages Version: %s'' [golem_messages_version e]]"
  by (simp add: log_golem_version_def emit_def)

lemma start_crossbar_worker_effects:
  "\<exists>evs. trace (snd (start_crossbar_worker e mn p)) = trace p @ evs \<and>
         set evs \<subseteq> {ImportModule mn, ModuleRun mn} \<and>
         sys_modules (snd (start_crossbar_worker e mn p)) = sys_modules p"
  by (auto simp add: start_crossbar_worker_def emit_def Let_def split: option.splits sum.splits)

lemma log_platform_info_effects:
  "\<exists>evs. trace (snd (log_platform_info e p)) = trace p @ evs \<and>
         (\<forall>ev \<in> set evs. \<exists>f a. ev = LoggerInfo f a) \<and>
         sys_modules (snd (log_platform_info e p)) = sys_modules p \<and>
         sys_argv (snd (log_platform_info e p)) = sys_argv p"
  by (auto simp add: log_platform_info_def emit_def Let_def split: option.splits sum.splits)

lemma start_version:
  "start e payments monitor datadir node_address rpc_address peer
         start_geth start_geth_port geth_address True m loglevel p =
     (Inr (Some 0),
      p\<lparr>sys_modules := (sys_modules p)(''twisted.internet.reactor'' := None),
        trace := trace p @ FreezeSupport #
                 (if ''twisted.internet.reactor'' \<in> dom (sys_modules p)
                  then [ModulesDel ''twisted.internet.reactor''] else []) @
                 [Print (''GOLEM version: '' @ golem_version e)]\<rparr>)"
  by (auto simp add: start_def delete_reactor_def modules_del_def emit_def fun_upd_idem_iff)

lemma config_requested_eq:
  "config_requested datadir p =
     p\<lparr>sys_modules := (sys_modules p)
          (''twisted.internet.reactor'' := None,
           ''win32com.gen_py.os'' \<mapsto> PyNone,
           ''win32com.gen_py.pywintypes'' \<mapsto> PyNone,
           ''win32com.gen_py.pythoncom'' \<mapsto> PyNone),
       trace := trace p @ FreezeSupport #
          (if ''twisted.internet.reactor'' \<in> dom (sys_modules p)
           then [ModulesDel ''twisted.internet.reactor''] else []) @
          [ModulesSet ''win32com.gen_py.os'' PyNone,
           ModulesSet ''win32com.gen_py.pywintypes'' PyNone,
           ModulesSet ''win32com.gen_py.pythoncom'' PyNone,
           NewClientConfigDescriptor, LoadConfig datadir]\<rparr>"
  by (auto simp add: config_requested_def delete_reactor_def modules_del_def modules_set_def
        emit_def fun_upd_idem_iff)

lemma trace_config_requested:
  "trace (config_requested datadir p) =
     trace p @ FreezeSupport #
       (if ''twisted.internet.reactor'' \<in> dom (sys_modules p)
        then [ModulesDel ''twisted.internet.reactor''] else []) @
       [ModulesSet ''win32com.gen_py.os'' PyNone,
        ModulesSet ''win32com.gen_py.pywintypes'' PyNone,
        ModulesSet ''win32com.gen_py.pythoncom'' PyNone,
        NewClientConfigDescriptor, LoadConfig datadir]"
  by (simp add: config_requested_eq)

lemma sys_modules_config_requested:
  "sys_modules (config_requested datadir p) =
     (sys_modules p)
       (''twisted.internet.reactor'' := None,
        ''win32com.gen_py.os'' \<mapsto> PyNone,
        ''win32com.gen_py.pywintypes'' \<mapsto> PyNone,
        ''win32com.gen_py.pythoncom'' \<mapsto> PyNone)"
  by (simp add: config_requested_eq)

lemma sys_argv_config_requested: "sys_argv (config_requested datadir p) = sys_argv p"
  by (simp add: config_requested_eq)

lemma PROTOCOL_CONST_ID_config_requested:
  "PROTOCOL_CONST_ID (config_requested datadir p) = PROTOCOL_CONST_ID p"
  by (simp add: config_requested_eq)

lemma start_load_fails:
  "load_config e datadir = Inl x \<Longrightarrow>
   start e payments monitor datadir node_address rpc_address peer
         start_geth start_geth_port geth_address False m loglevel p =
     (Inl x, config_requested datadir p)"
  by (simp add: start_def config_requested_def)

lemma start_worker:
  "load_config e datadir = Inr app_config \<Longrightarrow>
   start e payments monitor datadir node_address rpc_address peer
         start_geth start_geth_port geth_address False (Some ''crossbar.worker.process'')
         loglevel p =
     (case fst (start_crossbar_worker e ''crossbar.worker.process''
                 (emit InitFromAppConfig (config_requested datadir p))) of
        Inl x \<Rightarrow> Inl x
      | Inr u \<Rightarrow> Inr None,
      snd (start_crossbar_worker e ''crossbar.worker.process''
             (emit InitFromAppConfig (config_requested datadir p))))"
  by (simp add: start_def config_requested_def Let_def split: prod.splits sum.splits)

lemma start_node:
  "load_config e datadir = Inr app_config \<Longrightarrow> m \<noteq> Some ''crossbar.worker.process'' \<Longrightarrow>
   start e payments monitor datadir node_address rpc_address peer
         start_geth start_geth_port geth_address False m loglevel p =
     (case log_platform_info e
             (log_golem_version e
                (emit InstallReactor
                   (emit (ConfigLogging datadir loglevel)
                      (emit InitFromAppConfig (config_requested datadir p))))) of
        (Inl x, p11) \<Rightarrow> (Inl x, p11)
      | (Inr u, p11) \<Rightarrow>
          (Inr None,
           emit NodeStart
             (emit (NodeInit
                 \<lparr>kw_datadir = datadir,
                  kw_config_desc =
                    cli_overlay rpc_address node_address
                      (init_from_app_config e (new_config_desc e) app_config),
                  kw_transaction_system = payments,
                  kw_peers = peer,
                  kw_use_monitor = monitor,
                  kw_start_geth = start_geth,
                  kw_start_geth_port = start_geth_port,
                  kw_geth_address = geth_address\<rparr>) p11)))"
  by (simp add: start_def config_requested_def cli_overlay_def Let_def
        split: prod.splits sum.splits option.splits)

lemma worker_new_events:
  "\<exists>evs. trace (snd (start_crossbar_worker e mn (emit InitFromAppConfig (config_requested d p)))) =
           trace p @ FreezeSupport #
             (if ''twisted.internet.reactor'' \<in> dom (sys_modules p)
              then [ModulesDel ''twisted.internet.reactor''] else []) @
             [ModulesSet ''win32com.gen_py.os'' PyNone,
              ModulesSet ''win32com.gen_py.pywintypes'' PyNone,
              ModulesSet ''win32com.gen_py.pythoncom'' PyNone,
              NewClientConfigDescriptor, LoadConfig d, InitFromAppConfig] @ evs \<and>
         set evs \<subseteq> {ImportModule mn, ModuleRun mn}"
  using start_crossbar_worker_effects[of e mn "emit InitFromAppConfig (config_requested d p)"]
  by (auto simp add: trace_emit trace_config_requested)

lemma node_new_events:
  "\<exists>evs. trace (snd (log_platform_info e
                 (log_golem_version e
                    (emit InstallReactor
                       (emit (ConfigLogging d l)
                          (emit InitFromAppConfig (config_requested d p))))))) =
           trace p @ FreezeSupport #
             (if ''twisted.internet.reactor'' \<in> dom (sys_modules p)
              then [ModulesDel ''twisted.internet.reactor''] else []) @
             [ModulesSet ''win32com.gen_py.os'' PyNone,
              ModulesSet ''win32com.gen_py.pywintypes'' PyNone,
              ModulesSet ''win32com.gen_py.pythoncom'' PyNone,
              NewClientConfigDescriptor, LoadConfig d, InitFromAppConfig,
              ConfigLogging d l, InstallReactor,
              LoggerInfo ''GOLEM Version: %s'' [golem_version e],
              LoggerInfo ''Protocol Version: %s'' [PROTOCOL_CONST_ID p],
              LoggerInfo ''golem_messages Version: %s'' [golem_messages_version e]] @ evs \<and>
         (\<forall>ev \<in> set evs. \<exists>f a. ev = LoggerInfo f a)"
  using log_platform_info_effects[of e "log_golem_version e
                    (emit InstallReactor
                       (emit (ConfigLogging d l)
                          (emit InitFromAppConfig (config_requested d p))))"]
  by (auto simp add: trace_emit trace_config_requested trace_log_golem_version
      PROTOCOL_CONST_ID_emit PROTOCOL_CONST_ID_config_requested)

lemma sys_argv_requested_emit:
  "sys_argv (emit ev (config_requested d p)) = sys_argv p"
  by (simp add: sys_argv_emit sys_argv_config_requested)

lemma load_config_env0: "load_config env0 d = Inr ()"
  by (simp add: env0_def)

lemma list_index_first:
  "x \<notin> set pre \<Longrightarrow> list_index x (pre @ x # rest) = Some (length pre)"
  by (induction pre) auto

lemma list_pop_length: "list_pop (length pre) (pre @ x # rest) = Inr (pre @ rest)"
  by (simp add: list_pop_def)

lemma first_occurrence_not_last:
  "x \<notin> set pre \<Longrightarrow> a @ x # y # b \<noteq> pre @ [x]"
proof (induction pre arbitrary: a)
  case Nil
  then show ?case by (cases a) auto
next
  case (Cons z pre)
  then show ?case by (cases a) auto
qed

lemma first_occurrence_followed:
  assumes "xs = a @ x # y # b"
  shows "\<exists>pre z post. xs = pre @ x # z # post \<and> x \<notin> set pre"
proof -
  from assms have "x \<in> set xs" by simp
  then obtain pre rest where s: "xs = pre @ x # rest" "x \<notin> set pre"
    by (meson split_list_first)
  show ?thesis
  proof (cases rest)
    case Nil
    with s assms first_occurrence_not_last[of x pre a y b] show ?thesis by simp
  next
    case (Cons z post)
    with s show ?thesis by blast
  qed
qed

lemma start_crossbar_worker_argv:
  "sys_argv p = pre @ ''-m'' # z # post \<Longrightarrow> ''-m'' \<notin> set pre \<Longrightarrow>
   sys_argv (snd (start_crossbar_worker e mn p)) = remove1 ''-u'' (pre @ post)"
  by (simp add: start_crossbar_worker_def list_index_first list_pop_length Let_def
      sys_argv_emit remove1_idem)

lemma monkey_patched_getLogger_example:
  "logger_class (snd (overriding_getLogger ''eth.chain'' proc0)) = ''ethereum.slogging.SLogger'' \<and>
   monkey_patched_getLogger overriding_getLogger ''eth.chain'' proc0 =
     (Inr ''eth.chain'', proc0)"
  by (simp add: monkey_patched_getLogger_def overriding_getLogger_def proc0_def)

lemma monkey_patched_getLogger_raises:
  "orig_getLogger args p = (Inl x, p1) \<Longrightarrow>
   monkey_patched_getLogger orig_getLogger args p = (Inl x, p1)"
  by (simp add: monkey_patched_getLogger_def)

lemma cli_overlay_fields:
  "cd_rpc_address (cli_overlay rpc_address node_address d) =
     (case rpc_address of None \<Rightarrow> cd_rpc_address d | Some a \<Rightarrow> address a)"
  "cd_rpc_port (cli_overlay rpc_address node_address d) =
     (case rpc_address of None \<Rightarrow> cd_rpc_port d | Some a \<Rightarrow> port a)"
  "cd_node_address (cli_overlay rpc_address node_address d) =
     (case node_address of None \<Rightarrow> cd_node_address d
      | Some a \<Rightarrow> if a = [] then cd_node_address d else a)"
  "ClientConfigDescriptor.more (cli_overlay rpc_address node_address d) =
     ClientConfigDescriptor.more d"
  by (simp_all add: cli_overlay_def Let_def split: option.splits)

lemma start_node_returns:
  assumes load: "load_config e datadir = Inr app_config"
    and m: "m \<noteq> Some ''crossbar.worker.process''"
    and ok: "fst (start e payments monitor datadir node_address rpc_address peer
              start_geth start_geth_port geth_address False m loglevel p) = Inr None"
  shows "\<exists>pre. trace (snd (start e payments monitor datadir node_address rpc_address peer
              start_geth start_geth_port geth_address False m loglevel p)) =
          trace p @ pre @
            [NodeInit \<lparr>kw_datadir = datadir,
                       kw_config_desc =
                         cli_overlay rpc_address node_address
                           (init_from_app_config e (new_config_desc e) app_config),
                       kw_transaction_system = payments,
                       kw_peers = peer,
                       kw_use_monitor = monitor,
                       kw_start_geth = start_geth,
                       kw_start_geth_port = start_geth_port,
                       kw_geth_address = geth_address\<rparr>, NodeStart] \<and>
          (\<forall>k. NodeInit k \<notin> set pre) \<and> NodeStart \<notin> set pre"
proof -
  obtain res q where lq: "log_platform_info e
                 (log_golem_version e
                    (emit InstallReactor
                       (emit (ConfigLogging datadir loglevel)
                          (emit InitFromAppConfig (config_requested datadir p))))) = (res, q)"
    by (cases "log_platform_info e
                 (log_golem_version e
                    (emit InstallReactor
                       (emit (ConfigLogging datadir loglevel)
                          (emit InitFromAppConfig (config_requested datadir p)))))") auto
  obtain evs where evs:
    "trace q =
           trace p @ FreezeSupport #
             (if ''twisted.internet.reactor'' \<in> dom (sys_modules p)
              then [ModulesDel ''twisted.internet.reactor''] else []) @
             [ModulesSet ''win32com.gen_py.os'' PyNone,
              ModulesSet ''win32com.gen_py.pywintypes'' PyNone,
              ModulesSet ''win32com.gen_py.pythoncom'' PyNone,
              NewClientConfigDescriptor, LoadConfig datadir, InitFromAppConfig,
              ConfigLogging datadir loglevel, InstallReactor,
              LoggerInfo ''GOLEM Version: %s'' [golem_version e],
              LoggerInfo ''Protocol Version: %s'' [PROTOCOL_CONST_ID p],
              LoggerInfo ''golem_messages Version: %s'' [golem_messages_version e]] @ evs"
    "\<forall>ev \<in> set evs. \<exists>f a. ev = LoggerInfo f a"
    using node_new_events[of e datadir loglevel p] lq by auto
  from ok load m lq obtain u where res: "res = Inr u"
    by (cases res) (simp_all add: start_node)
  show ?thesis
    apply (rule exI[where x = "FreezeSupport #
             (if ''twisted.internet.reactor'' \<in> dom (sys_modules p)
              then [ModulesDel ''twisted.internet.reactor''] else []) @
             [ModulesSet ''win32com.gen_py.os'' PyNone,
              ModulesSet ''win32com.gen_py.pywintypes'' PyNone,
              ModulesSet ''win32com.gen_py.pythoncom'' PyNone,
              NewClientConfigDescriptor, LoadConfig datadir, InitFromAppConfig,
              ConfigLogging datadir loglevel, InstallReactor,
              LoggerInfo ''GOLEM Version: %s'' [golem_version e],
              LoggerInfo ''Protocol Version: %s'' [PROTOCOL_CONST_ID p],
              LoggerInfo ''golem_messages Version: %s'' [golem_messages_version e]] @ evs"])
    using evs load m lq res
    by (auto simp add: start_node trace_emit)
qed

lemma sys_modules_log_golem_version:
  "sys_modules (log_golem_version e p) = sys_modules p"
  by (simp add: log_golem_version_def emit_def)

lemma sys_modules_start:
  "sys_modules (snd (start e payments monitor datadir node_address rpc_address peer
                       start_geth start_geth_port geth_address version m loglevel p)) =
     (if version then (sys_modules p)(''twisted.internet.reactor'' := None)
      else (sys_modules p)
             (''twisted.internet.reactor'' := None,
              ''win32com.gen_py.os'' \<mapsto> PyNone,
              ''win32com.gen_py.pywintypes'' \<mapsto> PyNone,
              ''win32com.gen_py.pythoncom'' \<mapsto> PyNone))"
proof (cases version)
  case True
  then show ?thesis by (simp add: start_version)
next
  case False
  show ?thesis
  proof (cases "load_config e datadir")
    case (Inl x)
    with False show ?thesis
      by (simp add: start_load_fails sys_modules_config_requested)
  next
    case (Inr app_config)
    show ?thesis
    proof (cases "m = Some ''crossbar.worker.process''")
      case True
      with False Inr show ?thesis
        using start_crossbar_worker_effects[of e "''crossbar.worker.process''"
            "emit InitFromAppConfig (config_requested datadir p)"]
        by (auto simp add: start_worker sys_modules_emit sys_modules_config_requested)
    next
      case other: False
      obtain res q where lq: "log_platform_info e
                 (log_golem_version e
                    (emit InstallReactor
                       (emit (ConfigLogging datadir loglevel)
                          (emit InitFromAppConfig (config_requested datadir p))))) = (res, q)"
        by (cases "log_platform_info e
                 (log_golem_version e
                    (emit InstallReactor
                       (emit (ConfigLogging datadir loglevel)
                          (emit InitFromAppConfig (config_requested datadir p)))))") auto
      have "sys_modules q =
            (sys_modules p)
             (''twisted.internet.reactor'' := None,
              ''win32com.gen_py.os'' \<mapsto> PyNone,
              ''win32com.gen_py.pywintypes'' \<mapsto> PyNone,
              ''win32com.gen_py.pythoncom'' \<mapsto> PyNone)"
        using log_platform_info_effects[of e "log_golem_version e
                    (emit InstallReactor
                       (emit (ConfigLogging datadir loglevel)
                          (emit InitFromAppConfig (config_requested datadir p))))"] lq
        by (auto simp add: sys_modules_emit sys_modules_config_requested
            sys_modules_log_golem_version)
      with False Inr other lq show ?thesis
        by (cases res) (simp_all add: start_node sys_modules_emit)
    qed
  qed
qed

lemma persisted_env0:
  "init_from_app_config env0 (new_config_desc env0) () =
     \<lparr>cd_rpc_address = ''localhost'', cd_rpc_port = 61000, cd_node_address = ''10.0.0.1''\<rparr>"
  by (simp add: env0_def)

lemma log_platform_info_env0: "fst (log_platform_info env0 q) = Inr ()"
  by (simp add: log_platform_info_def env0_def Let_def)

lemma start_env0_returns:
  assumes "m \<noteq> Some ''crossbar.worker.process''"
  shows "fst (start env0 payments monitor datadir node_address rpc_address peer
          start_geth start_geth_port geth_address False m loglevel p) = Inr None"
proof -
  obtain res q where lq: "log_platform_info env0
                 (log_golem_version env0
                    (emit InstallReactor
                       (emit (ConfigLogging datadir loglevel)
                          (emit InitFromAppConfig (config_requested datadir p))))) = (res, q)"
    by (cases "log_platform_info env0
                 (log_golem_version env0
                    (emit InstallReactor
                       (emit (ConfigLogging datadir loglevel)
                          (emit InitFromAppConfig (config_requested datadir p)))))") auto
  with log_platform_info_env0[of "log_golem_version env0
                    (emit InstallReactor
                       (emit (ConfigLogging datadir loglevel)
                          (emit InitFromAppConfig (config_requested datadir p))))"]
  have "res = Inr ()" by simp
  with assms lq show ?thesis
    by (simp add: start_node[OF load_config_env0])
qed

lemma start_trace_prelude:
  "\<exists>rest. trace (snd (start e payments monitor datadir node_address rpc_address peer
                         start_geth start_geth_port geth_address version m loglevel p)) =
            trace p @ FreezeSupport #
              (if ''twisted.internet.reactor'' \<in> dom (sys_modules p)
               then [ModulesDel ''twisted.internet.reactor''] else []) @ rest \<and>
          FreezeSupport \<notin> set rest \<and> ModulesDel ''twisted.internet.reactor'' \<notin> set rest \<and>
          rest \<noteq> [] \<and>
          hd rest = (if version then Print (''GOLEM version: '' @ golem_version e)
                     else ModulesSet ''win32com.gen_py.os'' PyNone)"
proof (cases version)
  case True
  then show ?thesis
    by (simp add: start_version)
next
  case False
  show ?thesis
  proof (cases "load_config e datadir")
    case (Inl x)
    with False show ?thesis
      by (simp add: start_load_fails trace_config_requested)
  next
    case (Inr app_config)
    show ?thesis
    proof (cases "m = Some ''crossbar.worker.process''")
      case True
      obtain evs where
        "trace (snd (start_crossbar_worker e ''crossbar.worker.process''
                 (emit InitFromAppConfig (config_requested datadir p)))) =
           trace p @ FreezeSupport #
             (if ''twisted.internet.reactor'' \<in> dom (sys_modules p)
              then [ModulesDel ''twisted.internet.reactor''] else []) @
             [ModulesSet ''win32com.gen_py.os'' PyNone,
              ModulesSet ''win32com.gen_py.pywintypes'' PyNone,
              ModulesSet ''win32com.gen_py.pythoncom'' PyNone,
              NewClientConfigDescriptor, LoadConfig datadir, InitFromAppConfig] @ evs"
        "set evs \<subseteq> {ImportModule ''crossbar.worker.process'', ModuleRun ''crossbar.worker.process''}"
        using worker_new_events by blast
      with \<open>\<not> version\<close> Inr True show ?thesis
        by (auto simp add: start_worker)
    next
      case other: False
      obtain r q where lq: "log_platform_info e
                 (log_golem_version e
                    (emit InstallReactor
                       (emit (ConfigLogging datadir loglevel)
                          (emit InitFromAppConfig (config_requested datadir p))))) = (r, q)"
        by (cases "log_platform_info e
                 (log_golem_version e
                    (emit InstallReactor
                       (emit (ConfigLogging datadir loglevel)
                          (emit InitFromAppConfig (config_requested datadir p)))))") auto
      obtain evs where
        "trace q =
           trace p @ FreezeSupport #
             (if ''twisted.internet.reactor'' \<in> dom (sys_modules p)
              then [ModulesDel ''twisted.internet.reactor''] else []) @
             [ModulesSet ''win32com.gen_py.os'' PyNone,
              ModulesSet ''win32com.gen_py.pywintypes'' PyNone,
              ModulesSet ''win32com.gen_py.pythoncom'' PyNone,
              NewClientConfigDescriptor, LoadConfig datadir, InitFromAppConfig,
              ConfigLogging datadir loglevel, InstallReactor,
              LoggerInfo ''GOLEM Version: %s'' [golem_version e],
              LoggerInfo ''Protocol Version: %s'' [PROTOCOL_CONST_ID p],
              LoggerInfo ''golem_messages Version: %s'' [golem_messages_version e]] @ evs"
        "\<forall>ev \<in> set evs. \<exists>f a. ev = LoggerInfo f a"
        using node_new_events[of e datadir loglevel p] lq by auto
      with \<open>\<not> version\<close> Inr other lq show ?thesis
        by (cases r) (auto simp add: start_node trace_emit)
    qed
  qed
qed

lemma load_config_env_unreadable: "load_config env_unreadable d = Inl ConfigLoadError"
  by (simp add: env_unreadable_def)

lemma start_load_fails_effects:
  assumes "load_config e datadir = Inl x"
  shows "fst (start e payments monitor datadir node_address rpc_address peer
             start_geth start_geth_port geth_address False m loglevel p) = Inl x"
    and "sys_argv (snd (start e payments monitor datadir node_address rpc_address peer
             start_geth start_geth_port geth_address False m loglevel p)) = sys_argv p"
    and "drop (length (trace p))
           (trace (snd (start e payments monitor datadir node_address rpc_address peer
             start_geth start_geth_port geth_address False m loglevel p))) =
         FreezeSupport #
           (if ''twisted.internet.reactor'' \<in> dom (sys_modules p)
            then [ModulesDel ''twisted.internet.reactor''] else []) @
           [ModulesSet ''win32com.gen_py.os'' PyNone,
            ModulesSet ''win32com.gen_py.pywintypes'' PyNone,
            ModulesSet ''win32com.gen_py.pythoncom'' PyNone,
            NewClientConfigDescriptor, LoadConfig datadir]"
  using assms
  by (simp_all add: start_load_fails sys_argv_config_requested trace_config_requested)

lemma list_index_less: "list_index x xs = Some i \<Longrightarrow> i < length xs"
  by (induction xs arbitrary: i) (auto split: if_splits option.splits)

lemma pop_twice:
  "i < length xs \<Longrightarrow>
   list_pop i xs = Inr (take i xs @ drop (Suc i) xs) \<and>
   list_pop i (take i xs @ drop (Suc i) xs) =
     (if Suc i < length xs then Inr (take i xs @ drop (i + 2) xs) else Inl IndexError)"
  by (auto simp add: list_pop_def min_def)

lemma start_crossbar_worker_eq:
  "start_crossbar_worker e mn q =
     (case list_index ''-m'' (sys_argv q) of
        None \<Rightarrow> (Inl ValueError, q)
      | Some i \<Rightarrow>
         if Suc i < length (sys_argv q)
         then (if importable e mn then Inr () else Inl (ImportError mn),
               q\<lparr>sys_argv := remove1 ''-u'' (take i (sys_argv q) @ drop (i + 2) (sys_argv q)),
                 trace := trace q @ ImportModule mn #
                            (if importable e mn then [ModuleRun mn] else [])\<rparr>)
         else (Inl IndexError, q\<lparr>sys_argv := take i (sys_argv q)\<rparr>))"
proof (cases "list_index ''-m'' (sys_argv q)")
  case None
  then show ?thesis by (simp add: start_crossbar_worker_def)
next
  case (Some i)
  from list_index_less[OF Some] have i: "i < length (sys_argv q)" .
  from pop_twice[OF i] Some i show ?thesis
    by (auto simp add: start_crossbar_worker_def Let_def emit_def remove1_idem)
qed

subsection \<open>Parsing: the order of the parameters and the single steps\<close>

lemma process_params_append:
  "process_params e V opts (xs @ ys) s =
     (case process_params e V opts xs s of
        (Inl x, s1) \<Rightarrow> (Inl x, s1)
      | (Inr u, s1) \<Rightarrow> process_params e V opts ys s1)"
  by (induction xs arbitrary: s) (auto split: prod.splits sum.splits)

lemma set_iter_params_for_processing:
  "set (iter_params_for_processing given decl) = set decl"
  by (auto simp add: iter_params_for_processing_def Let_def)

lemma iter_params_for_processing_split:
  "\<exists>E N. iter_params_for_processing given decl = E @ N \<and>
         set E = {q \<in> set decl. is_eager q} \<and> set N = {q \<in> set decl. \<not> is_eager q}"
  apply (rule exI[where x = "filter is_eager (concat (map (\<lambda>n. [q \<leftarrow> decl. pname q = n])
                            (rev (remdups (rev given)))) @ [q \<leftarrow> decl. pname q \<notin> set given])"])
  apply (rule exI[where x = "filter (\<lambda>q. \<not> is_eager q) (concat (map (\<lambda>n. [q \<leftarrow> decl. pname q = n])
                            (rev (remdups (rev given)))) @ [q \<leftarrow> decl. pname q \<notin> set given])"])
  apply (auto simp add: iter_params_for_processing_def Let_def)
  done

lemma filter_eager_start_params:
  "filter is_eager (start_params d) =
     [click_option ''protocol_id'' IntT True False (Some PatchProtocolId) VNone,
      click_option ''start_geth'' BoolT True True None (VBool False)]"
  by (simp add: start_params_def click_option_def)

lemma eager_start_params:
  "{q \<in> set (start_params d). is_eager q} =
     {click_option ''protocol_id'' IntT True False (Some PatchProtocolId) VNone,
      click_option ''start_geth'' BoolT True True None (VBool False)}"
  using filter_eager_start_params[of d, THEN arg_cong, of set] by simp

lemma list_all_lazy_start_params:
  "list_all (\<lambda>q. callback q \<noteq> Some PatchProtocolId \<and> pname q \<noteq> ''start_geth'' \<and>
                 (callback q = Some EnforceStartGethUsed \<longrightarrow>
                    q = click_option ''start_geth_port'' IntT False True
                          (Some EnforceStartGethUsed) VNone))
     (filter (\<lambda>q. \<not> is_eager q) (start_params d))"
  by (simp add: start_params_def click_option_def)

lemma lazy_start_params:
  "q \<in> set (start_params d) \<Longrightarrow> \<not> is_eager q \<Longrightarrow>
   callback q \<noteq> Some PatchProtocolId \<and> pname q \<noteq> ''start_geth'' \<and>
   (callback q = Some EnforceStartGethUsed \<longrightarrow>
      q = click_option ''start_geth_port'' IntT False True (Some EnforceStartGethUsed) VNone)"
  using list_all_lazy_start_params[of d] unfolding list_all_iff by simp

lemma list_all_names_start_params:
  "list_all (\<lambda>q. (pname q = ''start_geth_port'' \<longrightarrow>
                    q = click_option ''start_geth_port'' IntT False True
                          (Some EnforceStartGethUsed) VNone) \<and>
                 (pname q = ''start_geth'' \<longrightarrow>
                    q = click_option ''start_geth'' BoolT True True None (VBool False)))
     (start_params d)"
  by (simp add: start_params_def click_option_def)

lemma names_start_params:
  assumes "q \<in> set (start_params d)"
  shows "pname q = ''start_geth_port'' \<Longrightarrow>
           q = click_option ''start_geth_port'' IntT False True (Some EnforceStartGethUsed) VNone"
    and "pname q = ''start_geth'' \<Longrightarrow>
           q = click_option ''start_geth'' BoolT True True None (VBool False)"
  using list_all_names_start_params[of d] assms unfolding list_all_iff by simp_all

lemma start_geth_port_lazy:
  "click_option ''start_geth_port'' IntT False True (Some EnforceStartGethUsed) VNone
     \<in> {q \<in> set (start_params d). \<not> is_eager q}"
  by (simp add: start_params_def click_option_def)

lemma param_value_protocol_id:
  "opts ''protocol_id'' = Some (VInt n) \<Longrightarrow>
   param_value e opts (click_option ''protocol_id'' IntT True False (Some PatchProtocolId) VNone) =
     Inr (VInt n)"
  by (simp add: param_value_def click_option_def convert_def)

lemma handle_parse_result_protocol_id:
  "param_value e opts (click_option ''protocol_id'' IntT True False (Some PatchProtocolId) VNone) =
     Inr vp \<Longrightarrow>
   handle_parse_result e V opts
     (click_option ''protocol_id'' IntT True False (Some PatchProtocolId) VNone) s =
   (Inr (), s\<lparr>process := patch_protocol_id e vp (process s)\<rparr>)"
proof -
  assume vp: "param_value e opts
      (click_option ''protocol_id'' IntT True False (Some PatchProtocolId) VNone) = Inr vp"
  have q: "callback (click_option ''protocol_id'' IntT True False (Some PatchProtocolId) VNone) =
             Some PatchProtocolId"
    "expose_value (click_option ''protocol_id'' IntT True False (Some PatchProtocolId) VNone) =
       False"
    by (simp_all add: click_option_def)
  show ?thesis
    by (simp add: handle_parse_result_def vp q run_callback_def)
qed

lemma handle_parse_result_start_geth:
  "handle_parse_result e V opts (click_option ''start_geth'' BoolT True True None (VBool False)) s =
   (Inr (), s\<lparr>ctx_params := (ctx_params s)
                 (''start_geth'' \<mapsto> (case opts ''start_geth'' of None \<Rightarrow> VBool False
                                      | Some g \<Rightarrow> g))\<rparr>)"
  by (simp add: handle_parse_result_def param_value_def convert_def click_option_def
      split: option.splits)

lemma patch_protocol_id_twice:
  "patch_protocol_id e v (patch_protocol_id e v p) = patch_protocol_id e v p"
  by (cases v) (simp_all add: patch_protocol_id_def)

lemma eager_run:
  assumes vp: "param_value e opts
      (click_option ''protocol_id'' IntT True False (Some PatchProtocolId) VNone) = Inr vp"
  shows "set E \<subseteq> {click_option ''protocol_id'' IntT True False (Some PatchProtocolId) VNone,
             click_option ''start_geth'' BoolT True True None (VBool False)} \<Longrightarrow>
   fst (process_params e V opts E s) = Inr () \<and>
   seen (snd (process_params e V opts E s)) = seen s \<and>
   ctx_params (snd (process_params e V opts E s)) =
     (if click_option ''start_geth'' BoolT True True None (VBool False) \<in> set E
      then (ctx_params s)(''start_geth'' \<mapsto>
             (case opts ''start_geth'' of None \<Rightarrow> VBool False | Some g \<Rightarrow> g))
      else ctx_params s) \<and>
   process (snd (process_params e V opts E s)) =
     (if click_option ''protocol_id'' IntT True False (Some PatchProtocolId) VNone \<in> set E
      then patch_protocol_id e vp (process s)
      else process s)"
proof (induction E arbitrary: s)
  case Nil
  then show ?case by simp
next
  case (Cons q E)
  then have E: "set E \<subseteq> {click_option ''protocol_id'' IntT True False (Some PatchProtocolId) VNone,
             click_option ''start_geth'' BoolT True True None (VBool False)}"
    by simp
  have ne: "click_option ''protocol_id'' IntT True False (Some PatchProtocolId) VNone \<noteq>
            click_option ''start_geth'' BoolT True True None (VBool False)"
    by (simp add: click_option_def)
  from Cons.prems consider
      "q = click_option ''protocol_id'' IntT True False (Some PatchProtocolId) VNone"
    | "q = click_option ''start_geth'' BoolT True True None (VBool False)"
    by auto
  then show ?case
  proof cases
    case 1
    then show ?thesis
      using Cons.IH[OF E] ne
      by (simp add: handle_parse_result_protocol_id[OF vp] patch_protocol_id_twice)
  next
    case 2
    then show ?thesis
      using Cons.IH[OF E] ne
      by (auto simp add: handle_parse_result_start_geth)
  qed
qed

lemma run_callback_state:
  "cb \<noteq> PatchProtocolId \<Longrightarrow>
   snd (run_callback e V pn cb v s) =
     s\<lparr>seen := seen s @ [(cb, PROTOCOL_CONST_ID (process s))]\<rparr>"
  by (simp add: run_callback_def Let_def split: option.splits)

lemma run_callback_frame:
  "ctx_params (snd (run_callback e V pn cb v s)) = ctx_params s"
  "trace (process (snd (run_callback e V pn cb v s))) = trace (process s)"
  by (auto simp add: run_callback_def Let_def patch_protocol_id_def
      split: option.splits pyval.splits)

lemma run_callback_error:
  "fst (run_callback e V pn cb v s) = Inl x \<Longrightarrow> x = UsageError pn"
  by (auto simp add: run_callback_def Let_def enforce_start_geth_used_def
      split: option.splits if_splits)

text \<open>One parameter, by cases: its value does not convert, or its callback has run.\<close>

lemma handle_parse_result_cases:
  obtains (convert_fails) "param_value e opts q = Inl (UsageError (pname q))"
      "handle_parse_result e V opts q s = (Inl (UsageError (pname q)), s)"
  | (no_callback) v where "param_value e opts q = Inr v" "callback q = None"
      "handle_parse_result e V opts q s =
         (Inr (), if expose_value q then s\<lparr>ctx_params := (ctx_params s)(pname q \<mapsto> v)\<rparr> else s)"
  | (callback_fails) v cb s1 where "param_value e opts q = Inr v" "callback q = Some cb"
      "run_callback e V (pname q) cb v s = (Inl (UsageError (pname q)), s1)"
      "handle_parse_result e V opts q s = (Inl (UsageError (pname q)), s1)"
  | (callback_passes) v cb v1 s1 where "param_value e opts q = Inr v" "callback q = Some cb"
      "run_callback e V (pname q) cb v s = (Inr v1, s1)"
      "handle_parse_result e V opts q s =
         (Inr (), if expose_value q then s1\<lparr>ctx_params := (ctx_params s1)(pname q \<mapsto> v1)\<rparr>
                  else s1)"
proof (cases "param_value e opts q")
  case (Inl x)
  then have "x = UsageError (pname q)"
    by (auto simp add: param_value_def split: option.splits)
  with Inl convert_fails show ?thesis
    by (simp add: handle_parse_result_def)
next
  case (Inr v)
  show ?thesis
  proof (cases "callback q")
    case None
    with Inr no_callback show ?thesis
      by (simp add: handle_parse_result_def)
  next
    case (Some cb)
    obtain r s1 where rc: "run_callback e V (pname q) cb v s = (r, s1)"
      by (cases "run_callback e V (pname q) cb v s") auto
    show ?thesis
    proof (cases r)
      case (Inl x)
      with rc run_callback_error[of e V "pname q" cb v s x] have "x = UsageError (pname q)"
        by simp
      with Inl rc Inr Some callback_fails show ?thesis
        by (simp add: handle_parse_result_def)
    next
      case r: (Inr v1)
      with rc Inr Some callback_passes show ?thesis
        by (simp add: handle_parse_result_def)
    qed
  qed
qed

lemma handle_parse_result_error:
  "fst (handle_parse_result e V opts q s) = Inl x \<Longrightarrow> x = UsageError (pname q)"
  by (cases rule: handle_parse_result_cases[of e opts q V s]) (auto split: if_splits)

lemma handle_parse_result_frame:
  "trace (process (snd (handle_parse_result e V opts q s))) = trace (process s)"
  "pname q \<noteq> k \<Longrightarrow> ctx_params (snd (handle_parse_result e V opts q s)) k = ctx_params s k"
proof -
  show "trace (process (snd (handle_parse_result e V opts q s))) = trace (process s)"
  proof (cases rule: handle_parse_result_cases[of e opts q V s])
    case (callback_fails v cb s1)
    with run_callback_frame(2)[of e V "pname q" cb v s] show ?thesis by simp
  next
    case (callback_passes v cb v1 s1)
    with run_callback_frame(2)[of e V "pname q" cb v s] show ?thesis by simp
  qed simp_all
  show "ctx_params (snd (handle_parse_result e V opts q s)) k = ctx_params s k"
    if "pname q \<noteq> k"
  proof (cases rule: handle_parse_result_cases[of e opts q V s])
    case (callback_fails v cb s1)
    with run_callback_frame(1)[of e V "pname q" cb v s] show ?thesis by simp
  next
    case (callback_passes v cb v1 s1)
    with run_callback_frame(1)[of e V "pname q" cb v s] that show ?thesis by simp
  qed (use that in simp_all)
qed

lemma handle_parse_result_lazy:
  assumes "callback q \<noteq> Some PatchProtocolId"
  shows "process (snd (handle_parse_result e V opts q s)) = process s"
    and "\<exists>new. seen (snd (handle_parse_result e V opts q s)) = seen s @ new \<and>
               snd ` set new \<subseteq> {PROTOCOL_CONST_ID (process s)}"
proof -
  show "process (snd (handle_parse_result e V opts q s)) = process s"
  proof (cases rule: handle_parse_result_cases[of e opts q V s])
    case (callback_fails v cb s1)
    with assms run_callback_state[of cb e V "pname q" v s] show ?thesis by simp
  next
    case (callback_passes v cb v1 s1)
    with assms run_callback_state[of cb e V "pname q" v s] show ?thesis by simp
  qed simp_all
  show "\<exists>new. seen (snd (handle_parse_result e V opts q s)) = seen s @ new \<and>
               snd ` set new \<subseteq> {PROTOCOL_CONST_ID (process s)}"
  proof (cases rule: handle_parse_result_cases[of e opts q V s])
    case (callback_fails v cb s1)
    with assms run_callback_state[of cb e V "pname q" v s] show ?thesis by simp
  next
    case (callback_passes v cb v1 s1)
    with assms run_callback_state[of cb e V "pname q" v s] show ?thesis by simp
  qed simp_all
qed

lemma lazy_run:
  "\<forall>q \<in> set N. callback q \<noteq> Some PatchProtocolId \<Longrightarrow>
   process (snd (process_params e V opts N s)) = process s \<and>
   (\<exists>new. seen (snd (process_params e V opts N s)) = seen s @ new \<and>
          snd ` set new \<subseteq> {PROTOCOL_CONST_ID (process s)})"
proof (induction N arbitrary: s)
  case Nil
  then show ?case by simp
next
  case (Cons q N)
  then have q: "callback q \<noteq> Some PatchProtocolId"
    and N: "\<forall>q \<in> set N. callback q \<noteq> Some PatchProtocolId"
    by simp_all
  obtain r s1 where h: "handle_parse_result e V opts q s = (r, s1)"
    by (cases "handle_parse_result e V opts q s") auto
  from handle_parse_result_lazy[OF q, of e V opts s] h
  obtain new1 where s1: "process s1 = process s" "seen s1 = seen s @ new1"
    "snd ` set new1 \<subseteq> {PROTOCOL_CONST_ID (process s)}"
    by auto
  show ?case
  proof (cases r)
    case (Inl x)
    with h s1 show ?thesis by auto
  next
    case (Inr u)
    from Cons.IH[OF N, of s1] s1 obtain new2 where
      "process (snd (process_params e V opts N s1)) = process s"
      "seen (snd (process_params e V opts N s1)) = seen s @ new1 @ new2"
      "snd ` set new2 \<subseteq> {PROTOCOL_CONST_ID (process s)}"
      by auto
    with h Inr s1 show ?thesis
      by (auto intro!: exI[where x = "new1 @ new2"])
  qed
qed

lemma process_params_error:
  "fst (process_params e V opts L s) = Inl x \<Longrightarrow> \<exists>q \<in> set L. x = UsageError (pname q)"
proof (induction L arbitrary: s)
  case Nil
  then show ?case by simp
next
  case (Cons q L)
  obtain r s1 where h: "handle_parse_result e V opts q s = (r, s1)"
    by (cases "handle_parse_result e V opts q s") auto
  show ?case
  proof (cases r)
    case (Inl y)
    with h Cons.prems handle_parse_result_error[of e V opts q s y] show ?thesis by simp
  next
    case (Inr u)
    with h Cons.prems Cons.IH[of s1] show ?thesis by simp
  qed
qed

lemma process_params_trace:
  "trace (process (snd (process_params e V opts L s))) = trace (process s)"
proof (induction L arbitrary: s)
  case Nil
  then show ?case by simp
next
  case (Cons q L)
  obtain r s1 where h: "handle_parse_result e V opts q s = (r, s1)"
    by (cases "handle_parse_result e V opts q s") auto
  with handle_parse_result_frame(1)[of e V opts q s]
  have "trace (process s1) = trace (process s)" by simp
  with h Cons.IH[of s1] show ?case
    by (cases r) simp_all
qed

lemma parse_args_eager_then_lazy:
  assumes vp: "param_value e opts
      (click_option ''protocol_id'' IntT True False (Some PatchProtocolId) VNone) = Inr vp"
  shows "\<exists>N s1.
     parse_args e V d given opts p = process_params e V opts N s1 \<and>
     set N = {q \<in> set (start_params d). \<not> is_eager q} \<and>
     seen s1 = [] \<and>
     ctx_params s1 = Map.empty(''start_geth'' \<mapsto>
        (case opts ''start_geth'' of None \<Rightarrow> VBool False | Some g \<Rightarrow> g)) \<and>
     process s1 = patch_protocol_id e vp p"
proof -
  obtain E N where EN: "iter_params_for_processing given (start_params d) = E @ N"
    "set E = {q \<in> set (start_params d). is_eager q}"
    "set N = {q \<in> set (start_params d). \<not> is_eager q}"
    using iter_params_for_processing_split by blast
  have E: "set E = {click_option ''protocol_id'' IntT True False (Some PatchProtocolId) VNone,
                    click_option ''start_geth'' BoolT True True None (VBool False)}"
    using EN(2) eager_start_params by simp
  define s0 where "s0 = \<lparr>ctx_params = Map.empty, seen = [], process = p\<rparr>"
  define s1 where "s1 = snd (process_params e V opts E s0)"
  from eager_run[OF vp, of E V s0] E
  have run: "fst (process_params e V opts E s0) = Inr ()" "seen s1 = []"
    "ctx_params s1 = Map.empty(''start_geth'' \<mapsto>
        (case opts ''start_geth'' of None \<Rightarrow> VBool False | Some g \<Rightarrow> g))"
    "process s1 = patch_protocol_id e vp p"
    by (simp_all add: s1_def s0_def)
  have "process_params e V opts E s0 = (Inr (), s1)"
    using run(1) by (cases "process_params e V opts E s0") (simp add: s1_def)
  then have "parse_args e V d given opts p = process_params e V opts N s1"
    by (simp add: parse_args_def EN(1) process_params_append s0_def)
  with EN(3) run show ?thesis by blast
qed

lemma parse_example:
  "seen (snd (parse_args env0 accept_all ''/home/golem''
                  [''rpc_address'', ''protocol_id'']
                  [''rpc_address'' \<mapsto> VAddr \<lparr>address = ''127.0.0.1'', port = 61000\<rparr>,
                   ''protocol_id'' \<mapsto> VInt 31] proc0)) =
     [(ParseRpcAddress, ''31''), (ParseNodeAddr, ''31''), (ParsePeer, ''31''),
      (EnforceStartGethUsed, ''31''), (ParseHttpAddr, ''31'')]"
  by (simp add: parse_args_def iter_params_for_processing_def start_params_def click_option_def
      handle_parse_result_def param_value_def convert_def run_callback_def
      patch_protocol_id_def enforce_start_geth_used_def accept_all_def Let_def env0_def
      proc0_def)

lemma convert_int_not_none: "convert e IntT g = Some v \<Longrightarrow> v \<noteq> VNone"
  by (auto simp add: convert_def split: pyval.splits option.splits)

lemma start_geth_port_fails:
  assumes "ctx_params s ''start_geth'' \<noteq> Some (VBool True)"
    and "opts ''start_geth_port'' \<noteq> None"
  shows "fst (handle_parse_result e V opts
          (click_option ''start_geth_port'' IntT False True (Some EnforceStartGethUsed) VNone) s) =
     Inl (UsageError ''start_geth_port'')"
proof -
  from assms(2) obtain g where g: "opts ''start_geth_port'' = Some g" by auto
  show ?thesis
  proof (cases "convert e IntT g")
    case None
    with g show ?thesis
      by (simp add: handle_parse_result_def param_value_def click_option_def)
  next
    case (Some v)
    with convert_int_not_none have "v \<noteq> VNone" by blast
    with Some g assms(1) show ?thesis
      by (simp add: handle_parse_result_def param_value_def click_option_def run_callback_def
          Let_def enforce_start_geth_used_def)
  qed
qed

lemma start_geth_port_passes:
  assumes "param_value e opts
      (click_option ''start_geth_port'' IntT False True (Some EnforceStartGethUsed) VNone) = Inr v"
    and "ctx_params s ''start_geth'' = Some (VBool True) \<or> v = VNone"
  shows "fst (handle_parse_result e V opts
          (click_option ''start_geth_port'' IntT False True (Some EnforceStartGethUsed) VNone) s) =
     Inr ()"
proof -
  have q: "callback (click_option ''start_geth_port'' IntT False True
                       (Some EnforceStartGethUsed) VNone) = Some EnforceStartGethUsed"
    by (simp add: click_option_def)
  from assms(2) show ?thesis
    by (auto simp add: handle_parse_result_def assms(1) q run_callback_def Let_def
        enforce_start_geth_used_def)
qed

text \<open>
  A port that is given is rejected wherever it stands in the order, unless start-geth
  was stored as true before.
\<close>

lemma port_without_start_geth_fails:
  "click_option ''start_geth_port'' IntT False True (Some EnforceStartGethUsed) VNone \<in> set L \<Longrightarrow>
   set L \<subseteq> set (start_params d) \<Longrightarrow>
   ctx_params s ''start_geth'' \<noteq> Some (VBool True) \<Longrightarrow>
   opts ''start_geth'' \<noteq> Some (VBool True) \<Longrightarrow>
   opts ''start_geth_port'' \<noteq> None \<Longrightarrow>
   \<exists>n. fst (process_params e V opts L s) = Inl (UsageError n)"
proof (induction L arbitrary: s)
  case Nil
  then show ?case by simp
next
  case (Cons q L)
  obtain r s1 where h: "handle_parse_result e V opts q s = (r, s1)"
    by (cases "handle_parse_result e V opts q s") auto
  show ?case
  proof (cases r)
    case (Inl y)
    with h handle_parse_result_error[of e V opts q s y] show ?thesis by simp
  next
    case (Inr u)
    have neq:
      "q \<noteq> click_option ''start_geth_port'' IntT False True (Some EnforceStartGethUsed) VNone"
    proof
      assume "q = click_option ''start_geth_port'' IntT False True
                    (Some EnforceStartGethUsed) VNone"
      with start_geth_port_fails[of s opts e V] Cons.prems(3) Cons.prems(5) h Inr
      show False by simp
    qed
    with Cons.prems(1) have inL:
      "click_option ''start_geth_port'' IntT False True (Some EnforceStartGethUsed) VNone
         \<in> set L"
      by simp
    from Cons.prems(2) have sub: "set L \<subseteq> set (start_params d)"
      and qin: "q \<in> set (start_params d)" by simp_all
    have ctx: "ctx_params s1 ''start_geth'' \<noteq> Some (VBool True)"
    proof (cases "pname q = ''start_geth''")
      case True
      with names_start_params(2)[OF qin]
      have "q = click_option ''start_geth'' BoolT True True None (VBool False)" by simp
      with h handle_parse_result_start_geth[of e V opts s] Cons.prems(4) show ?thesis
        by (auto split: option.splits)
    next
      case False
      with handle_parse_result_frame(2)[of q "''start_geth''" e V opts s] h Cons.prems(3)
      show ?thesis by simp
    qed
    from Cons.IH[OF inL sub ctx Cons.prems(4) Cons.prems(5)] h Inr show ?thesis by simp
  qed
qed

lemma eager_ctx:
  "set E \<subseteq> {click_option ''protocol_id'' IntT True False (Some PatchProtocolId) VNone,
             click_option ''start_geth'' BoolT True True None (VBool False)} \<Longrightarrow>
   click_option ''start_geth'' BoolT True True None (VBool False) \<in> set E \<or>
     ctx_params s ''start_geth'' =
       Some (case opts ''start_geth'' of None \<Rightarrow> VBool False | Some g \<Rightarrow> g) \<Longrightarrow>
   ctx_params (snd (process_params e V opts E s)) ''start_geth'' =
       Some (case opts ''start_geth'' of None \<Rightarrow> VBool False | Some g \<Rightarrow> g) \<or>
   fst (process_params e V opts E s) \<noteq> Inr ()"
proof (induction E arbitrary: s)
  case Nil
  then show ?case by simp
next
  case (Cons q E)
  then have E: "set E \<subseteq> {click_option ''protocol_id'' IntT True False (Some PatchProtocolId) VNone,
             click_option ''start_geth'' BoolT True True None (VBool False)}"
    by simp
  obtain r s1 where h: "handle_parse_result e V opts q s = (r, s1)"
    by (cases "handle_parse_result e V opts q s") auto
  show ?case
  proof (cases r)
    case (Inl y)
    with h show ?thesis by simp
  next
    case (Inr u)
    from Cons.prems(1) consider
        "q = click_option ''protocol_id'' IntT True False (Some PatchProtocolId) VNone"
      | "q = click_option ''start_geth'' BoolT True True None (VBool False)"
      by auto
    then have "click_option ''start_geth'' BoolT True True None (VBool False) \<in> set E \<or>
       ctx_params s1 ''start_geth'' =
         Some (case opts ''start_geth'' of None \<Rightarrow> VBool False | Some g \<Rightarrow> g)"
    proof cases
      case 1
      then have "pname q \<noteq> ''start_geth''" by (simp add: click_option_def)
      from handle_parse_result_frame(2)[OF this, of e V opts s] h
      have "ctx_params s1 ''start_geth'' = ctx_params s ''start_geth''" by simp
      moreover from 1 have
        "q \<noteq> click_option ''start_geth'' BoolT True True None (VBool False)"
        by (simp add: click_option_def)
      ultimately show ?thesis using Cons.prems(2) by auto
    next
      case 2
      with h handle_parse_result_start_geth[of e V opts s] show ?thesis by auto
    qed
    from Cons.IH[OF E this] h Inr show ?thesis by simp
  qed
qed

lemma lazy_port_not_rejected:
  "\<forall>q \<in> set N. q \<in> set (start_params d) \<and> \<not> is_eager q \<Longrightarrow>
   ctx_params s ''start_geth'' = Some (VBool True) \<Longrightarrow>
   param_value e opts
      (click_option ''start_geth_port'' IntT False True (Some EnforceStartGethUsed) VNone) =
     Inr v \<Longrightarrow>
   fst (process_params e V opts N s) \<noteq> Inl (UsageError ''start_geth_port'')"
proof (induction N arbitrary: s)
  case Nil
  then show ?case by simp
next
  case (Cons q N)
  then have qin: "q \<in> set (start_params d)" and lazy: "\<not> is_eager q"
    and N: "\<forall>q \<in> set N. q \<in> set (start_params d) \<and> \<not> is_eager q"
    by simp_all
  obtain r s1 where h: "handle_parse_result e V opts q s = (r, s1)"
    by (cases "handle_parse_result e V opts q s") auto
  show ?case
  proof (cases r)
    case (Inl y)
    have "y \<noteq> UsageError ''start_geth_port''"
    proof
      assume y: "y = UsageError ''start_geth_port''"
      from h Inl handle_parse_result_error[of e V opts q s y]
      have "y = UsageError (pname q)" by simp
      with y have "pname q = ''start_geth_port''" by simp
      from names_start_params(1)[OF qin this]
        start_geth_port_passes[OF Cons.prems(3), of s V] Cons.prems(2) h Inl
      show False by simp
    qed
    with h Inl show ?thesis by simp
  next
    case (Inr u)
    from lazy_start_params[OF qin lazy] have "pname q \<noteq> ''start_geth''" by simp
    from handle_parse_result_frame(2)[OF this, of e V opts s] h Cons.prems(2)
    have "ctx_params s1 ''start_geth'' = Some (VBool True)" by simp
    from Cons.IH[OF N this Cons.prems(3)] h Inr show ?thesis by simp
  qed
qed

lemma lazy_run_passes:
  "\<forall>q \<in> set N. q \<in> set (start_params d) \<and> \<not> is_eager q \<and>
      (\<exists>v. param_value e opts q = Inr v \<and>
           (\<forall>cb. callback q = Some cb \<longrightarrow> cb \<noteq> PatchProtocolId \<longrightarrow>
                 cb \<noteq> EnforceStartGethUsed \<longrightarrow> V cb c v \<noteq> None)) \<Longrightarrow>
   ctx_params s ''start_geth'' = Some (VBool True) \<Longrightarrow>
   PROTOCOL_CONST_ID (process s) = c \<Longrightarrow>
   fst (process_params e V opts N s) = Inr ()"
proof (induction N arbitrary: s)
  case Nil
  then show ?case by simp
next
  case (Cons q N)
  then have qin: "q \<in> set (start_params d)" and lazy: "\<not> is_eager q"
    and N: "\<forall>q \<in> set N. q \<in> set (start_params d) \<and> \<not> is_eager q \<and>
      (\<exists>v. param_value e opts q = Inr v \<and>
           (\<forall>cb. callback q = Some cb \<longrightarrow> cb \<noteq> PatchProtocolId \<longrightarrow>
                 cb \<noteq> EnforceStartGethUsed \<longrightarrow> V cb c v \<noteq> None))"
    by simp_all
  from Cons.prems(1) obtain v where v: "param_value e opts q = Inr v"
    and acc: "\<forall>cb. callback q = Some cb \<longrightarrow> cb \<noteq> PatchProtocolId \<longrightarrow>
                 cb \<noteq> EnforceStartGethUsed \<longrightarrow> V cb c v \<noteq> None"
    by auto
  from lazy_start_params[OF qin lazy] have cbq: "callback q \<noteq> Some PatchProtocolId"
    and nm: "pname q \<noteq> ''start_geth''"
    and en: "callback q = Some EnforceStartGethUsed \<longrightarrow>
      q = click_option ''start_geth_port'' IntT False True (Some EnforceStartGethUsed) VNone"
    by simp_all
  have ok: "fst (handle_parse_result e V opts q s) = Inr ()"
  proof (cases "callback q")
    case None
    with v show ?thesis by (simp add: handle_parse_result_def)
  next
    case (Some cb)
    show ?thesis
    proof (cases "cb = EnforceStartGethUsed")
      case True
      with Some en have
        q: "q = click_option ''start_geth_port'' IntT False True (Some EnforceStartGethUsed) VNone"
        by simp
      with v start_geth_port_passes[of e opts v s V] Cons.prems(2) show ?thesis by simp
    next
      case False
      with Some cbq acc have "V cb c v \<noteq> None" by simp
      then obtain v1 where "V cb (PROTOCOL_CONST_ID (process s)) v = Some v1"
        using Cons.prems(3) by auto
      with False Some cbq v show ?thesis
        by (simp add: handle_parse_result_def run_callback_def Let_def)
    qed
  qed
  obtain r s1 where h: "handle_parse_result e V opts q s = (r, s1)"
    by (cases "handle_parse_result e V opts q s") auto
  with ok have r: "r = Inr ()" by simp
  from handle_parse_result_frame(2)[OF nm, of e V opts s] h Cons.prems(2)
  have ctx: "ctx_params s1 ''start_geth'' = Some (VBool True)" by simp
  from handle_parse_result_lazy(1)[OF cbq, of e V opts s] h Cons.prems(3)
  have id: "PROTOCOL_CONST_ID (process s1) = c" by simp
  from Cons.IH[OF N ctx id] h r show ?case by simp
qed

lemma parse_args_port_not_rejected:
  assumes sg: "opts ''start_geth'' = Some (VBool True)"
    and v: "param_value e opts
      (click_option ''start_geth_port'' IntT False True (Some EnforceStartGethUsed) VNone) =
      Inr v"
  shows "fst (parse_args e V d given opts p) \<noteq> Inl (UsageError ''start_geth_port'')"
proof -
  obtain E N where EN: "iter_params_for_processing given (start_params d) = E @ N"
    "set E = {q \<in> set (start_params d). is_eager q}"
    "set N = {q \<in> set (start_params d). \<not> is_eager q}"
    using iter_params_for_processing_split by blast
  have E: "set E = {click_option ''protocol_id'' IntT True False (Some PatchProtocolId) VNone,
                    click_option ''start_geth'' BoolT True True None (VBool False)}"
    using EN(2) eager_start_params by simp
  define s0 :: "'b pstate" where "s0 = \<lparr>ctx_params = Map.empty, seen = [], process = p\<rparr>"
  obtain r s1 where run: "process_params e V opts E s0 = (r, s1)"
    by (cases "process_params e V opts E s0") auto
  show ?thesis
  proof (cases r)
    case (Inl x)
    with run process_params_error[of e V opts E s0 x] E
    have "x \<noteq> UsageError ''start_geth_port''"
      by (auto simp add: click_option_def)
    with run Inl show ?thesis
      by (simp add: parse_args_def EN(1) process_params_append s0_def[symmetric])
  next
    case (Inr u)
    from eager_ctx[of E s0 opts e V] E run Inr sg
    have ctx: "ctx_params s1 ''start_geth'' = Some (VBool True)" by simp
    have "\<forall>q \<in> set N. q \<in> set (start_params d) \<and> \<not> is_eager q"
      using EN(3) by simp
    from lazy_port_not_rejected[OF this ctx v, of V] run Inr show ?thesis
      by (simp add: parse_args_def EN(1) process_params_append s0_def[symmetric])
  qed
qed

lemma param_value_start_geth_port:
  "opts ''start_geth_port'' = None \<Longrightarrow>
   param_value e opts
      (click_option ''start_geth_port'' IntT False True (Some EnforceStartGethUsed) VNone) =
     Inr VNone"
  "opts ''start_geth_port'' = Some (VInt n) \<Longrightarrow>
   param_value e opts
      (click_option ''start_geth_port'' IntT False True (Some EnforceStartGethUsed) VNone) =
     Inr (VInt n)"
  by (simp_all add: param_value_def click_option_def convert_def)

subsection \<open>The version branch\<close>

text \<open>
  C3. With the version flag set, \<open>start\<close> returns 0 and its only effects are the call of
  \<open>freeze_support\<close>, the removal of the reactor from \<open>sys.modules\<close> when it is there,
  and the printed version line: no configuration is loaded, no descriptor and no node
  are built, nothing is logged, and \<open>sys.argv\<close>, the logger class and the protocol
  constant are as before.
\<close>

theorem version_short_circuit:
  "fst (start e payments monitor datadir node_address rpc_address peer
          start_geth start_geth_port geth_address True m loglevel p) = Inr (Some 0) \<and>
   trace (snd (start e payments monitor datadir node_address rpc_address peer
                 start_geth start_geth_port geth_address True m loglevel p)) =
     trace p @ FreezeSupport #
       (if ''twisted.internet.reactor'' \<in> dom (sys_modules p)
        then [ModulesDel ''twisted.internet.reactor''] else []) @
       [Print (''GOLEM version: '' @ golem_version e)] \<and>
   sys_modules (snd (start e payments monitor datadir node_address rpc_address peer
                       start_geth start_geth_port geth_address True m loglevel p)) =
     (sys_modules p)(''twisted.internet.reactor'' := None) \<and>
   sys_argv (snd (start e payments monitor datadir node_address rpc_address peer
                    start_geth start_geth_port geth_address True m loglevel p)) = sys_argv p \<and>
   logger_class (snd (start e payments monitor datadir node_address rpc_address peer
                    start_geth start_geth_port geth_address True m loglevel p)) = logger_class p \<and>
   PROTOCOL_CONST_ID (snd (start e payments monitor datadir node_address rpc_address peer
                    start_geth start_geth_port geth_address True m loglevel p)) = PROTOCOL_CONST_ID p"
  by (simp add: start_version)

subsection \<open>What every invocation does first\<close>

text \<open>
  C10. Whatever the arguments are, the effects of \<open>start\<close> begin with the call of
  \<open>freeze_support\<close> and, when \<open>twisted.internet.reactor\<close> is a key of \<open>sys.modules\<close>, its
  removal. Neither happens again, and the first effect that depends on the version flag
  (the printed version line, or the first placeholder of line 109) comes right after
  them. The two steps leave \<open>sys.modules\<close> as it was but for the reactor, which is no
  key of it any more, nor of the registry \<open>start\<close> ends with.
\<close>

theorem prelude_first:
  "\<exists>rest. trace (snd (start e payments monitor datadir node_address rpc_address peer
                         start_geth start_geth_port geth_address version m loglevel p)) =
            trace p @ FreezeSupport #
              (if ''twisted.internet.reactor'' \<in> dom (sys_modules p)
               then [ModulesDel ''twisted.internet.reactor''] else []) @ rest \<and>
          FreezeSupport \<notin> set rest \<and> ModulesDel ''twisted.internet.reactor'' \<notin> set rest \<and>
          rest \<noteq> [] \<and>
          hd rest = (if version then Print (''GOLEM version: '' @ golem_version e)
                     else ModulesSet ''win32com.gen_py.os'' PyNone) \<and>
          ''twisted.internet.reactor'' \<notin>
            dom (sys_modules (snd (start e payments monitor datadir node_address rpc_address
                     peer start_geth start_geth_port geth_address version m loglevel p))) \<and>
          sys_modules (delete_reactor (emit FreezeSupport p)) =
            (sys_modules p)(''twisted.internet.reactor'' := None)"
proof -
  have reg: "''twisted.internet.reactor'' \<notin>
            dom (sys_modules (snd (start e payments monitor datadir node_address rpc_address
                     peer start_geth start_geth_port geth_address version m loglevel p)))"
    by (simp add: sys_modules_start)
  have del: "sys_modules (delete_reactor (emit FreezeSupport p)) =
            (sys_modules p)(''twisted.internet.reactor'' := None)"
    by (auto simp add: delete_reactor_def modules_del_def emit_def fun_upd_idem_iff)
  from start_trace_prelude[of e payments monitor datadir node_address rpc_address peer
      start_geth start_geth_port geth_address version m loglevel p] reg del
  show ?thesis by blast
qed

subsection \<open>Mode dispatch\<close>

text \<open>
  C1, as the claim states it, fails: the configuration is loaded on lines 113-114,
  before line 122 tests \<open>-m\<close>. With the version flag off and \<open>-m\<close> equal to
  \<open>crossbar.worker.process\<close>, a configuration store that cannot be read ends \<open>start\<close>
  with the exception of \<open>load_config\<close>: nothing is imported or run and \<open>sys.argv\<close> is
  untouched.
\<close>

theorem dispatch_preempted_counterexample:
  "fst (start env_unreadable True True ''/d'' None None [] False None None False
          (Some ''crossbar.worker.process'') None proc0) = Inl ConfigLoadError \<and>
   trace (snd (start env_unreadable True True ''/d'' None None [] False None None False
          (Some ''crossbar.worker.process'') None proc0)) =
     [FreezeSupport, ModulesDel ''twisted.internet.reactor'',
      ModulesSet ''win32com.gen_py.os'' PyNone,
      ModulesSet ''win32com.gen_py.pywintypes'' PyNone,
      ModulesSet ''win32com.gen_py.pythoncom'' PyNone,
      NewClientConfigDescriptor, LoadConfig ''/d''] \<and>
   sys_argv (snd (start env_unreadable True True ''/d'' None None [] False None None False
          (Some ''crossbar.worker.process'') None proc0)) = sys_argv proc0"
  unfolding start_load_fails[OF load_config_env_unreadable]
  by (simp add: config_requested_eq proc0_def)

text \<open>
  C1, amended. Which action \<open>start\<close> takes depends on the version flag, on whether
  \<open>load_config\<close> returns, and on the value of \<open>-m\<close>, and on nothing else. With the
  version flag it prints the version and returns 0, and neither imports a module nor
  configures logging nor starts a node. Without it, when \<open>load_config\<close> raises, \<open>start\<close>
  ends with that exception after the placeholders and the request for the
  configuration, and takes none of the three actions. Without it and once the
  configuration is loaded, \<open>-m\<close> equal to \<open>crossbar.worker.process\<close> hands control to
  \<open>start_crossbar_worker\<close> on the unchanged \<open>sys.argv\<close>, whose result and final state are
  the ones of \<open>start\<close>; every other value of \<open>-m\<close>, \<open>None\<close> included, configures
  logging, installs the reactor and starts the node (unless the diagnostics raise),
  importing no module. \<open>new\<close> are the effects of this call.
\<close>

theorem mode_dispatch:
  "let r = start e payments monitor datadir node_address rpc_address peer
             start_geth start_geth_port geth_address version m loglevel p;
       new = drop (length (trace p)) (trace (snd r))
   in (version \<longrightarrow>
         fst r = Inr (Some 0) \<and>
         Print (''GOLEM version: '' @ golem_version e) \<in> set new \<and>
         (\<forall>n. ImportModule n \<notin> set new) \<and>
         (\<forall>d l. ConfigLogging d l \<notin> set new) \<and> NodeStart \<notin> set new) \<and>
      (\<not> version \<and> m = Some ''crossbar.worker.process'' \<and>
       load_config e datadir = Inr app_config \<longrightarrow>
         (\<exists>q. sys_argv q = sys_argv p \<and>
              snd r = snd (start_crossbar_worker e ''crossbar.worker.process'' q) \<and>
              fst r = (case fst (start_crossbar_worker e ''crossbar.worker.process'' q) of
                         Inl x \<Rightarrow> Inl x | Inr u \<Rightarrow> Inr None)) \<and>
         (\<forall>s. Print s \<notin> set new) \<and>
         (\<forall>d l. ConfigLogging d l \<notin> set new) \<and> NodeStart \<notin> set new) \<and>
      (\<not> version \<and> m \<noteq> Some ''crossbar.worker.process'' \<and>
       load_config e datadir = Inr app_config \<longrightarrow>
         ConfigLogging datadir loglevel \<in> set new \<and> InstallReactor \<in> set new \<and>
         (\<forall>s. Print s \<notin> set new) \<and>
         (\<forall>n. ImportModule n \<notin> set new) \<and>
         (fst r = Inr None) = (NodeStart \<in> set new)) \<and>
      (\<not> version \<and> load_config e datadir = Inl x \<longrightarrow>
         fst r = Inl x \<and> sys_argv (snd r) = sys_argv p \<and>
         new = FreezeSupport #
                 (if ''twisted.internet.reactor'' \<in> dom (sys_modules p)
                  then [ModulesDel ''twisted.internet.reactor''] else []) @
                 [ModulesSet ''win32com.gen_py.os'' PyNone,
                  ModulesSet ''win32com.gen_py.pywintypes'' PyNone,
                  ModulesSet ''win32com.gen_py.pythoncom'' PyNone,
                  NewClientConfigDescriptor, LoadConfig datadir])"
proof -
  define r where "r = start e payments monitor datadir node_address rpc_address peer
             start_geth start_geth_port geth_address version m loglevel p"
  define new where "new = drop (length (trace p)) (trace (snd r))"
  have version_branch:
    "fst r = Inr (Some 0) \<and>
     Print (''GOLEM version: '' @ golem_version e) \<in> set new \<and>
     (\<forall>n. ImportModule n \<notin> set new) \<and>
     (\<forall>d l. ConfigLogging d l \<notin> set new) \<and> NodeStart \<notin> set new"
    if "version"
    using that by (simp add: r_def new_def start_version)
  have worker_branch:
    "(\<exists>q. sys_argv q = sys_argv p \<and>
          snd r = snd (start_crossbar_worker e ''crossbar.worker.process'' q) \<and>
          fst r = (case fst (start_crossbar_worker e ''crossbar.worker.process'' q) of
                     Inl x \<Rightarrow> Inl x | Inr u \<Rightarrow> Inr None)) \<and>
     (\<forall>s. Print s \<notin> set new) \<and>
     (\<forall>d l. ConfigLogging d l \<notin> set new) \<and> NodeStart \<notin> set new"
    if "\<not> version" "m = Some ''crossbar.worker.process''"
      "load_config e datadir = Inr app_config"
  proof -
    have eq: "r = (case fst (start_crossbar_worker e ''crossbar.worker.process''
                 (emit InitFromAppConfig (config_requested datadir p))) of
                  Inl x \<Rightarrow> Inl x | Inr u \<Rightarrow> Inr None,
                snd (start_crossbar_worker e ''crossbar.worker.process''
                 (emit InitFromAppConfig (config_requested datadir p))))"
      using that by (simp add: r_def start_worker)
    obtain evs where
      "trace (snd (start_crossbar_worker e ''crossbar.worker.process''
                 (emit InitFromAppConfig (config_requested datadir p)))) =
           trace p @ FreezeSupport #
             (if ''twisted.internet.reactor'' \<in> dom (sys_modules p)
              then [ModulesDel ''twisted.internet.reactor''] else []) @
             [ModulesSet ''win32com.gen_py.os'' PyNone,
              ModulesSet ''win32com.gen_py.pywintypes'' PyNone,
              ModulesSet ''win32com.gen_py.pythoncom'' PyNone,
              NewClientConfigDescriptor, LoadConfig datadir, InitFromAppConfig] @ evs"
      "set evs \<subseteq> {ImportModule ''crossbar.worker.process'', ModuleRun ''crossbar.worker.process''}"
      using worker_new_events by blast
    then have "(\<forall>s. Print s \<notin> set new) \<and>
       (\<forall>d l. ConfigLogging d l \<notin> set new) \<and> NodeStart \<notin> set new"
      using eq by (auto simp add: new_def)
    moreover have "\<exists>q. sys_argv q = sys_argv p \<and>
          snd r = snd (start_crossbar_worker e ''crossbar.worker.process'' q) \<and>
          fst r = (case fst (start_crossbar_worker e ''crossbar.worker.process'' q) of
                     Inl x \<Rightarrow> Inl x | Inr u \<Rightarrow> Inr None)"
      by (rule exI[where x = "emit InitFromAppConfig (config_requested datadir p)"])
         (simp add: eq sys_argv_requested_emit)
    ultimately show ?thesis by blast
  qed
  have node_branch:
    "ConfigLogging datadir loglevel \<in> set new \<and> InstallReactor \<in> set new \<and>
     (\<forall>s. Print s \<notin> set new) \<and>
     (\<forall>n. ImportModule n \<notin> set new) \<and>
     (fst r = Inr None) = (NodeStart \<in> set new)"
    if "\<not> version" "m \<noteq> Some ''crossbar.worker.process''"
      "load_config e datadir = Inr app_config"
  proof -
    obtain res q where lq: "log_platform_info e
                 (log_golem_version e
                    (emit InstallReactor
                       (emit (ConfigLogging datadir loglevel)
                          (emit InitFromAppConfig (config_requested datadir p))))) = (res, q)"
      by (cases "log_platform_info e
                 (log_golem_version e
                    (emit InstallReactor
                       (emit (ConfigLogging datadir loglevel)
                          (emit InitFromAppConfig (config_requested datadir p)))))") auto
    obtain evs where
      "trace q =
           trace p @ FreezeSupport #
             (if ''twisted.internet.reactor'' \<in> dom (sys_modules p)
              then [ModulesDel ''twisted.internet.reactor''] else []) @
             [ModulesSet ''win32com.gen_py.os'' PyNone,
              ModulesSet ''win32com.gen_py.pywintypes'' PyNone,
              ModulesSet ''win32com.gen_py.pythoncom'' PyNone,
              NewClientConfigDescriptor, LoadConfig datadir, InitFromAppConfig,
              ConfigLogging datadir loglevel, InstallReactor,
              LoggerInfo ''GOLEM Version: %s'' [golem_version e],
              LoggerInfo ''Protocol Version: %s'' [PROTOCOL_CONST_ID p],
              LoggerInfo ''golem_messages Version: %s'' [golem_messages_version e]] @ evs"
      "\<forall>ev \<in> set evs. \<exists>f a. ev = LoggerInfo f a"
      using node_new_events[of e datadir loglevel p] lq by auto
    with that lq show ?thesis
      by (cases res) (auto simp add: r_def new_def start_node trace_emit)
  qed
  have load_branch:
    "fst r = Inl x \<and> sys_argv (snd r) = sys_argv p \<and>
     new = FreezeSupport #
             (if ''twisted.internet.reactor'' \<in> dom (sys_modules p)
              then [ModulesDel ''twisted.internet.reactor''] else []) @
             [ModulesSet ''win32com.gen_py.os'' PyNone,
              ModulesSet ''win32com.gen_py.pywintypes'' PyNone,
              ModulesSet ''win32com.gen_py.pythoncom'' PyNone,
              NewClientConfigDescriptor, LoadConfig datadir]"
    if "\<not> version" "load_config e datadir = Inl x"
    using that(1)
    by (simp add: r_def new_def start_load_fails[OF that(2)] sys_argv_config_requested
        trace_config_requested)
  show ?thesis
    unfolding Let_def r_def[symmetric] new_def[symmetric]
    using version_branch worker_branch node_branch load_branch by blast
qed

theorem mode_dispatch_witness:
  "fst (start env0 True True ''/d'' None None [] False None None True None None proc0) =
     Inr (Some 0) \<and>
   load_config env0 ''/d'' = Inr () \<and>
   NodeStart \<notin> set (drop (length (trace proc0))
     (trace (snd (start env0 True True ''/d'' None None [] False None None False
                    (Some ''crossbar.worker.process'') None proc0)))) \<and>
   Some ''crossbar.worker'' \<noteq> Some ''crossbar.worker.process'' \<and>
   ConfigLogging ''/d'' None \<in> set (drop (length (trace proc0))
     (trace (snd (start env0 True True ''/d'' None None [] False None None False
                    (Some ''crossbar.worker'') None proc0)))) \<and>
   load_config env_unreadable ''/d'' = Inl ConfigLoadError \<and>
   fst (start env_unreadable True True ''/d'' None None [] False None None False
          (Some ''crossbar.worker.process'') None proc0) = Inl ConfigLoadError"
  using load_config_env0[of "''/d''"] load_config_env_unreadable[of "''/d''"]
    mode_dispatch[where e = env_unreadable and version = False and p = proc0
      and payments = True and monitor = True and datadir = "''/d''" and node_address = None
      and rpc_address = None and peer = "[]" and start_geth = False and start_geth_port = None
      and geth_address = None and m = "Some ''crossbar.worker.process''" and loglevel = None
      and x = ConfigLoadError and app_config = "()"]
    mode_dispatch[where e = env0 and version = True and p = proc0 and payments = True
      and monitor = True and datadir = "''/d''" and node_address = None and rpc_address = None
      and peer = "[]" and start_geth = False and start_geth_port = None and geth_address = None
      and m = None and loglevel = None and app_config = "()"]
    mode_dispatch[where e = env0 and version = False and p = proc0 and payments = True
      and monitor = True and datadir = "''/d''" and node_address = None and rpc_address = None
      and peer = "[]" and start_geth = False and start_geth_port = None and geth_address = None
      and m = "Some ''crossbar.worker.process''" and loglevel = None and app_config = "()"]
    mode_dispatch[where e = env0 and version = False and p = proc0 and payments = True
      and monitor = True and datadir = "''/d''" and node_address = None and rpc_address = None
      and peer = "[]" and start_geth = False and start_geth_port = None and geth_address = None
      and m = "Some ''crossbar.worker''" and loglevel = None and app_config = "()"]
  by (simp add: Let_def)

subsection \<open>The worker branch\<close>

text \<open>
  C2, as the claim states it, fails: on the worker branch lines 113-114 have already
  built a \<open>ClientConfigDescriptor\<close> and loaded the configuration of \<open>datadir\<close> when
  line 122 tests \<open>-m\<close>. The effects of one such run, in full:
\<close>

theorem worker_branch_loads_config_counterexample:
  "trace (snd (start env0 True True ''/d'' None None [] False None None False
                 (Some ''crossbar.worker.process'') None proc0)) =
     [FreezeSupport, ModulesDel ''twisted.internet.reactor'',
      ModulesSet ''win32com.gen_py.os'' PyNone,
      ModulesSet ''win32com.gen_py.pywintypes'' PyNone,
      ModulesSet ''win32com.gen_py.pythoncom'' PyNone,
      NewClientConfigDescriptor, LoadConfig ''/d'', InitFromAppConfig,
      ImportModule ''crossbar.worker.process'', ModuleRun ''crossbar.worker.process'']"
proof -
  have imp: "importable env0 ''crossbar.worker.process''"
    by (simp add: env0_def)
  show ?thesis
    unfolding start_worker[OF load_config_env0]
    by (simp add: start_crossbar_worker_def Let_def list_pop_def emit_def config_requested_eq
        proc0_def imp)
qed

text \<open>
  C2, amended. Without the version flag and with \<open>-m\<close> equal to
  \<open>crossbar.worker.process\<close>, \<open>start\<close> does configuration work first: it registers the
  three placeholders, builds a \<open>ClientConfigDescriptor\<close> and loads the configuration of
  \<open>datadir\<close>; when that load raises, \<open>start\<close> ends there. Otherwise it initialises the
  descriptor and calls \<open>start_crossbar_worker\<close>. When \<open>sys.argv\<close> holds an element \<open>-m\<close>
  followed by another element, the call removes the first \<open>-m\<close>, the element after it
  and the first \<open>-u\<close> if there is one, imports the module and, unless the import
  raises, calls its \<open>run\<close>. When \<open>sys.argv\<close> holds no element \<open>-m\<close> the call raises
  ValueError with \<open>sys.argv\<close> as it was, and when \<open>-m\<close> is the last element it removes
  that element and raises IndexError; in both cases nothing is imported or run. These
  are all the effects: logging is not configured, the reactor is not installed, no
  diagnostics are logged and no node is built.
\<close>

theorem worker_branch_effects:
  "let r = start e payments monitor datadir node_address rpc_address peer
             start_geth start_geth_port geth_address False
             (Some ''crossbar.worker.process'') loglevel p;
       argv = sys_argv p;
       requested = FreezeSupport #
         (if ''twisted.internet.reactor'' \<in> dom (sys_modules p)
          then [ModulesDel ''twisted.internet.reactor''] else []) @
         [ModulesSet ''win32com.gen_py.os'' PyNone,
          ModulesSet ''win32com.gen_py.pywintypes'' PyNone,
          ModulesSet ''win32com.gen_py.pythoncom'' PyNone,
          NewClientConfigDescriptor, LoadConfig datadir]
   in case load_config e datadir of
        Inl x \<Rightarrow>
          fst r = Inl x \<and> sys_argv (snd r) = argv \<and> trace (snd r) = trace p @ requested
      | Inr app_config \<Rightarrow>
         (case list_index ''-m'' argv of
            None \<Rightarrow>
              fst r = Inl ValueError \<and> sys_argv (snd r) = argv \<and>
              trace (snd r) = trace p @ requested @ [InitFromAppConfig]
          | Some i \<Rightarrow>
             if Suc i < length argv
             then fst r = (if importable e ''crossbar.worker.process'' then Inr None
                           else Inl (ImportError ''crossbar.worker.process'')) \<and>
                  sys_argv (snd r) = remove1 ''-u'' (take i argv @ drop (i + 2) argv) \<and>
                  trace (snd r) =
                    trace p @ requested @
                    [InitFromAppConfig, ImportModule ''crossbar.worker.process''] @
                    (if importable e ''crossbar.worker.process''
                     then [ModuleRun ''crossbar.worker.process''] else [])
             else fst r = Inl IndexError \<and> sys_argv (snd r) = take i argv \<and>
                  trace (snd r) = trace p @ requested @ [InitFromAppConfig])"
proof (cases "load_config e datadir")
  case (Inl x)
  then show ?thesis
    by (simp add: Let_def start_load_fails sys_argv_config_requested trace_config_requested)
next
  case (Inr app_config)
  have argv: "sys_argv (emit InitFromAppConfig (config_requested datadir p)) = sys_argv p"
    by (rule sys_argv_requested_emit)
  show ?thesis
  proof (cases "list_index ''-m'' (sys_argv p)")
    case None
    with Inr argv show ?thesis
      by (simp add: Let_def start_worker start_crossbar_worker_eq trace_emit
          trace_config_requested)
  next
    case (Some i)
    with Inr argv show ?thesis
      by (simp add: Let_def start_worker start_crossbar_worker_eq trace_emit
          trace_config_requested)
  qed
qed

text \<open>
  C5. When \<open>sys.argv\<close> holds \<open>-m\<close> followed by one more element, \<open>start_crossbar_worker\<close>
  leaves \<open>sys.argv\<close> without its first \<open>-m\<close>, without the element after it and
  without its first \<open>-u\<close>, if it has one; the other elements stay, in their order
  (\<open>remove1\<close> deletes one occurrence and keeps the rest as it is). From
  \<open>-m worker.module -u extra\<close> it leaves \<open>extra\<close>.
\<close>

theorem worker_argv_mutation:
  "sys_argv p = a @ ''-m'' # modname # b \<Longrightarrow>
   \<exists>pre z post.
     sys_argv p = pre @ ''-m'' # z # post \<and> ''-m'' \<notin> set pre \<and>
     sys_argv (snd (start_crossbar_worker e mn p)) = remove1 ''-u'' (pre @ post)"
proof -
  assume "sys_argv p = a @ ''-m'' # modname # b"
  from first_occurrence_followed[OF this] obtain pre z post where
    s: "sys_argv p = pre @ ''-m'' # z # post" "''-m'' \<notin> set pre"
    by blast
  from start_crossbar_worker_argv[OF s, of e mn] s show ?thesis by blast
qed

theorem worker_argv_mutation_witness:
  "sys_argv (proc0\<lparr>sys_argv := [''-m'', ''worker.module'', ''-u'', ''extra'']\<rparr>) =
     [] @ ''-m'' # ''worker.module'' # [''-u'', ''extra''] \<and>
   sys_argv (snd (start_crossbar_worker env0 ''worker.module''
      (proc0\<lparr>sys_argv := [''-m'', ''worker.module'', ''-u'', ''extra'']\<rparr>))) = [''extra''] \<and>
   sys_argv proc0 = [''golemapp''] @ ''-m'' # ''crossbar.worker.process'' # [''-u'', ''extra''] \<and>
   sys_argv (snd (start_crossbar_worker env0 ''crossbar.worker.process'' proc0)) =
     [''golemapp'', ''extra'']"
proof -
  have h1: "sys_argv (proc0\<lparr>sys_argv := [''-m'', ''worker.module'', ''-u'', ''extra'']\<rparr>) =
     [] @ ''-m'' # ''worker.module'' # [''-u'', ''extra'']" by simp
  have h2: "sys_argv proc0 =
     [''golemapp''] @ ''-m'' # ''crossbar.worker.process'' # [''-u'', ''extra'']"
    by (simp add: proc0_def)
  from worker_argv_mutation[OF h1, of env0 "''worker.module''"] obtain pre z post where
    a: "[''-m'', ''worker.module'', ''-u'', ''extra''] = pre @ ''-m'' # z # post"
       "''-m'' \<notin> set pre"
       "sys_argv (snd (start_crossbar_worker env0 ''worker.module''
          (proc0\<lparr>sys_argv := [''-m'', ''worker.module'', ''-u'', ''extra'']\<rparr>))) =
        remove1 ''-u'' (pre @ post)"
    by auto
  from a(1,2) have "pre = []" by (cases pre) auto
  with a have r1: "sys_argv (snd (start_crossbar_worker env0 ''worker.module''
          (proc0\<lparr>sys_argv := [''-m'', ''worker.module'', ''-u'', ''extra'']\<rparr>))) = [''extra'']"
    by auto
  from worker_argv_mutation[OF h2, of env0 "''crossbar.worker.process''"] obtain pre z post
    where b: "sys_argv proc0 = pre @ ''-m'' # z # post" "''-m'' \<notin> set pre"
       "sys_argv (snd (start_crossbar_worker env0 ''crossbar.worker.process'' proc0)) =
        remove1 ''-u'' (pre @ post)"
    by auto
  from b(1,2) h2 have "pre = [''golemapp'']"
    by (cases pre; cases "tl pre") auto
  with b h2 have r2: "sys_argv (snd (start_crossbar_worker env0 ''crossbar.worker.process'' proc0)) =
     [''golemapp'', ''extra'']"
    by auto
  from h1 h2 r1 r2 show ?thesis by blast
qed

subsection \<open>The configuration overlay\<close>

text \<open>
  C4. When the node is started, the descriptor handed to \<open>Node\<close> is the one initialised
  from the loaded configuration, with the RPC address and port replaced by the ones of
  \<open>--rpc-address\<close> when that option is given, the node address replaced by
  \<open>--node-address\<close> when that option is given and not empty, and every other attribute
  as loaded.
\<close>

theorem configuration_overlay:
  "load_config e datadir = Inr app_config \<Longrightarrow> m \<noteq> Some ''crossbar.worker.process'' \<Longrightarrow>
   fst (start e payments monitor datadir node_address rpc_address peer
          start_geth start_geth_port geth_address False m loglevel p) = Inr None \<Longrightarrow>
   \<exists>pre kw.
     trace (snd (start e payments monitor datadir node_address rpc_address peer
                   start_geth start_geth_port geth_address False m loglevel p)) =
       trace p @ pre @ [NodeInit kw, NodeStart] \<and>
     (\<forall>k. NodeInit k \<notin> set pre) \<and>
     cd_rpc_address (kw_config_desc kw) =
       (case rpc_address of
          None \<Rightarrow> cd_rpc_address (init_from_app_config e (new_config_desc e) app_config)
        | Some a \<Rightarrow> address a) \<and>
     cd_rpc_port (kw_config_desc kw) =
       (case rpc_address of
          None \<Rightarrow> cd_rpc_port (init_from_app_config e (new_config_desc e) app_config)
        | Some a \<Rightarrow> port a) \<and>
     cd_node_address (kw_config_desc kw) =
       (case node_address of
          None \<Rightarrow> cd_node_address (init_from_app_config e (new_config_desc e) app_config)
        | Some a \<Rightarrow>
            if a = [] then cd_node_address (init_from_app_config e (new_config_desc e) app_config)
            else a) \<and>
     ClientConfigDescriptor.more (kw_config_desc kw) =
       ClientConfigDescriptor.more (init_from_app_config e (new_config_desc e) app_config)"
proof -
  assume a: "load_config e datadir = Inr app_config" "m \<noteq> Some ''crossbar.worker.process''"
   "fst (start e payments monitor datadir node_address rpc_address peer
          start_geth start_geth_port geth_address False m loglevel p) = Inr None"
  from start_node_returns[OF a] obtain pre where pre:
    "trace (snd (start e payments monitor datadir node_address rpc_address peer
              start_geth start_geth_port geth_address False m loglevel p)) =
          trace p @ pre @
            [NodeInit \<lparr>kw_datadir = datadir,
                       kw_config_desc =
                         cli_overlay rpc_address node_address
                           (init_from_app_config e (new_config_desc e) app_config),
                       kw_transaction_system = payments,
                       kw_peers = peer,
                       kw_use_monitor = monitor,
                       kw_start_geth = start_geth,
                       kw_start_geth_port = start_geth_port,
                       kw_geth_address = geth_address\<rparr>, NodeStart]"
    "\<forall>k. NodeInit k \<notin> set pre"
    by blast
  show ?thesis
    apply (rule exI[where x = pre])
    apply (rule exI[where x = "\<lparr>kw_datadir = datadir,
                       kw_config_desc =
                         cli_overlay rpc_address node_address
                           (init_from_app_config e (new_config_desc e) app_config),
                       kw_transaction_system = payments,
                       kw_peers = peer,
                       kw_use_monitor = monitor,
                       kw_start_geth = start_geth,
                       kw_start_geth_port = start_geth_port,
                       kw_geth_address = geth_address\<rparr>"])
    using pre by (simp add: cli_overlay_fields)
qed

theorem configuration_overlay_witness:
  "load_config env0 ''/tmp/x'' = Inr () \<and>
   (None :: string option) \<noteq> Some ''crossbar.worker.process'' \<and>
   fst (start env0 True True ''/tmp/x'' None (Some \<lparr>address = ''127.0.0.1'', port = 61000\<rparr>) []
          False None None False None None proc0) = Inr None \<and>
   (\<exists>pre kw.
      trace (snd (start env0 True True ''/tmp/x'' None
                    (Some \<lparr>address = ''127.0.0.1'', port = 61000\<rparr>) []
                    False None None False None None proc0)) =
        trace proc0 @ pre @ [NodeInit kw, NodeStart] \<and>
      cd_rpc_address (kw_config_desc kw) = ''127.0.0.1'' \<and>
      cd_rpc_port (kw_config_desc kw) = 61000 \<and>
      cd_node_address (kw_config_desc kw) = ''10.0.0.1'' \<and>
      ClientConfigDescriptor.more (kw_config_desc kw) = ())"
proof -
  have h1: "load_config env0 ''/tmp/x'' = Inr ()" by (rule load_config_env0)
  have h2: "(None :: string option) \<noteq> Some ''crossbar.worker.process''" by simp
  have h3: "fst (start env0 True True ''/tmp/x'' None
                   (Some \<lparr>address = ''127.0.0.1'', port = 61000\<rparr>) []
                   False None None False None None proc0) = Inr None"
    by (rule start_env0_returns[OF h2])
  from configuration_overlay[OF h1 h2 h3] obtain pre kw where
    "trace (snd (start env0 True True ''/tmp/x'' None
                    (Some \<lparr>address = ''127.0.0.1'', port = 61000\<rparr>) []
                    False None None False None None proc0)) =
        trace proc0 @ pre @ [NodeInit kw, NodeStart]"
    "cd_rpc_address (kw_config_desc kw) = ''127.0.0.1''"
    "cd_rpc_port (kw_config_desc kw) = 61000"
    "cd_node_address (kw_config_desc kw) = ''10.0.0.1''"
    by (auto simp add: persisted_env0)
  with h1 h2 h3 show ?thesis by auto
qed

subsection \<open>The placeholders of sys.modules\<close>

text \<open>
  C6, as the claim states it, fails: no platform is tested before lines 109-111. Where
  \<open>platform.system()\<close> is Linux and \<open>win32com.gen_py.os\<close> is a loaded module, the entry
  is replaced by \<open>None\<close> all the same.
\<close>

theorem shim_not_gated_counterexample:
  "platform_system env0 = ''Linux'' \<and>
   sys_modules proc0 ''win32com.gen_py.os'' = Some ModuleObj \<and>
   sys_modules (snd (start env0 True True ''/d'' None None [] False None None False None None
                       proc0)) ''win32com.gen_py.os'' = Some PyNone \<and>
   sys_modules (snd (start env0 True True ''/d'' None None [] False None None False None None
                       proc0)) ''win32com.gen_py.pythoncom'' = Some PyNone"
  by (simp add: sys_modules_start) (simp add: env0_def proc0_def)

text \<open>
  C6, amended. On every platform and for all arguments without the version flag,
  \<open>start\<close> sets the entries \<open>win32com.gen_py.os\<close>, \<open>win32com.gen_py.pywintypes\<close> and
  \<open>win32com.gen_py.pythoncom\<close> of \<open>sys.modules\<close> to \<open>None\<close>, whatever they held; apart
  from the reactor it changes no other entry. With the version flag it sets none.
\<close>

theorem shim_on_every_platform:
  "sys_modules (snd (start (e\<lparr>platform_system := system\<rparr>) payments monitor datadir
                       node_address rpc_address peer start_geth start_geth_port geth_address
                       version m loglevel p)) =
     (if version then (sys_modules p)(''twisted.internet.reactor'' := None)
      else (sys_modules p)
             (''twisted.internet.reactor'' := None,
              ''win32com.gen_py.os'' \<mapsto> PyNone,
              ''win32com.gen_py.pywintypes'' \<mapsto> PyNone,
              ''win32com.gen_py.pythoncom'' \<mapsto> PyNone))"
  by (rule sys_modules_start)

subsection \<open>The logger class\<close>

text \<open>
  C7, as the claim states it, fails: lines 32-36 have no \<open>try\<close>, so when the original
  accessor has overridden the default logger class and raises, line 35 is not reached
  and the override stays.
\<close>

theorem logger_class_not_restored_counterexample:
  "logger_class proc0 = ''logging.Logger'' \<and>
   fst (monkey_patched_getLogger raising_getLogger 5 proc0) = Inl TypeError \<and>
   logger_class (snd (monkey_patched_getLogger raising_getLogger 5 proc0)) =
     ''ethereum.slogging.SLogger''"
  by (simp add: monkey_patched_getLogger_def raising_getLogger_def proc0_def)

text \<open>
  C7, amended. A call of \<open>monkey_patched_getLogger\<close> returns, or raises, exactly what
  \<open>orig_getLogger\<close> returns or raises on the same arguments and state. When
  \<open>orig_getLogger\<close> returns, the state after the call is the one it left with the default
  logger class set back to what it was before the call; this holds in every state, so
  for every such call and not only the first. When \<open>orig_getLogger\<close> raises, the state
  is the one it left, an override of the logger class included.
\<close>

theorem logger_class_guard:
  "fst (monkey_patched_getLogger orig_getLogger args p) = fst (orig_getLogger args p) \<and>
   snd (monkey_patched_getLogger orig_getLogger args p) =
     (case fst (orig_getLogger args p) of
        Inl x \<Rightarrow> snd (orig_getLogger args p)
      | Inr result \<Rightarrow> (snd (orig_getLogger args p))\<lparr>logger_class := logger_class p\<rparr>)"
  by (cases "orig_getLogger args p")
     (auto simp add: monkey_patched_getLogger_def Let_def split: sum.splits)

subsection \<open>The options\<close>

text \<open>
  C8. When a protocol id is given, every validator that runs during the parse (the
  callbacks of node-address, rpc-address, peer, start-geth-port and geth-address, each
  recorded in \<open>seen\<close> with the value of \<open>PROTOCOL_CONST.ID\<close> at that moment) finds the
  constant already patched to that id, and the constant holds it when the parse ends.
  This is so for every order of the options on the command line
  (\<open>invocation_order\<close>) and for all validators \<open>V\<close>. In lemma \<open>parse_example\<close> the id
  is given after the RPC address and all five validators see it.
\<close>

theorem eager_protocol_id_visible:
  "opts ''protocol_id'' = Some (VInt n) \<Longrightarrow>
   snd ` set (seen (snd (parse_args e V local_datadir invocation_order opts p))) \<subseteq>
     {protocol_id_str e n} \<and>
   PROTOCOL_CONST_ID (process (snd (parse_args e V local_datadir invocation_order opts p))) =
     protocol_id_str e n"
proof -
  assume given: "opts ''protocol_id'' = Some (VInt n)"
  have vp: "param_value e opts
      (click_option ''protocol_id'' IntT True False (Some PatchProtocolId) VNone) =
      Inr (VInt n)"
    using given by (rule param_value_protocol_id)
  obtain N s1 where N:
    "parse_args e V local_datadir invocation_order opts p = process_params e V opts N s1"
    "set N = {q \<in> set (start_params local_datadir). \<not> is_eager q}"
    "seen s1 = []"
    "process s1 = patch_protocol_id e (VInt n) p"
    using parse_args_eager_then_lazy[where e = e and opts = opts and vp = "VInt n" and V = V
        and d = local_datadir and given = invocation_order and p = p] vp
    by blast
  from N(4) have id: "PROTOCOL_CONST_ID (process s1) = protocol_id_str e n"
    by (simp add: patch_protocol_id_def)
  have "\<forall>q \<in> set N. callback q \<noteq> Some PatchProtocolId"
    using N(2) lazy_start_params by blast
  from lazy_run[OF this, of e V opts s1] N(3) id N(1) show ?thesis
    by auto
qed

theorem eager_protocol_id_visible_witness:
  "[''rpc_address'' \<mapsto> VAddr \<lparr>address = ''127.0.0.1'', port = 61000\<rparr>,
    ''protocol_id'' \<mapsto> VInt 31] ''protocol_id'' = Some (VInt 31) \<and>
   PROTOCOL_CONST_ID proc0 = ''30'' \<and>
   snd ` set (seen (snd (parse_args env0 accept_all ''/home/golem''
                  [''rpc_address'', ''protocol_id'']
                  [''rpc_address'' \<mapsto> VAddr \<lparr>address = ''127.0.0.1'', port = 61000\<rparr>,
                   ''protocol_id'' \<mapsto> VInt 31] proc0))) \<subseteq> {''31''} \<and>
   PROTOCOL_CONST_ID (process (snd (parse_args env0 accept_all ''/home/golem''
                  [''rpc_address'', ''protocol_id'']
                  [''rpc_address'' \<mapsto> VAddr \<lparr>address = ''127.0.0.1'', port = 61000\<rparr>,
                   ''protocol_id'' \<mapsto> VInt 31] proc0))) = ''31''"
proof -
  have id: "protocol_id_str env0 31 = ''31''" by (simp add: env0_def)
  have p0: "PROTOCOL_CONST_ID proc0 = ''30''" by (simp add: proc0_def)
  have g: "[''rpc_address'' \<mapsto> VAddr \<lparr>address = ''127.0.0.1'', port = 61000\<rparr>,
    ''protocol_id'' \<mapsto> VInt 31] ''protocol_id'' = Some (VInt 31)" by simp
  from eager_protocol_id_visible[where opts = "[''rpc_address'' \<mapsto>
        VAddr \<lparr>address = ''127.0.0.1'', port = 61000\<rparr>, ''protocol_id'' \<mapsto> VInt 31]"
      and n = 31 and e = env0 and V = accept_all and local_datadir = "''/home/golem''"
      and invocation_order = "[''rpc_address'', ''protocol_id'']" and p = proc0] id p0 g
  show ?thesis by simp
qed

text \<open>
  C9. A port for geth given without start-geth ends the command with a UsageError and
  with no effect of \<open>start\<close>: nothing is configured and no node is built. With
  start-geth given, the port is never the parameter the parse rejects, whether no port
  is given or an integer one; and with start-geth given and no port the whole parse
  passes as soon as the values of this invocation are accepted: every parameter's
  value converts to its type and the validator of every other callback accepts it.
  All of this holds for every order of the options on the command line.
\<close>

theorem start_geth_port_needs_start_geth:
  "(opts ''start_geth_port'' \<noteq> None \<and> opts ''start_geth'' \<noteq> Some (VBool True) \<longrightarrow>
      (\<exists>name. fst (main e V local_datadir invocation_order opts p) =
                 Inl (UsageError name)) \<and>
      trace (snd (main e V local_datadir invocation_order opts p)) = trace p) \<and>
   (opts ''start_geth'' = Some (VBool True) \<and> opts ''start_geth_port'' = None \<longrightarrow>
      fst (parse_args e V local_datadir invocation_order opts p) \<noteq>
        Inl (UsageError ''start_geth_port'') \<and>
      ((\<forall>q \<in> set (start_params local_datadir).
           \<exists>v. param_value e opts q = Inr v \<and>
               (\<forall>cb. callback q = Some cb \<longrightarrow> cb \<noteq> PatchProtocolId \<longrightarrow>
                     cb \<noteq> EnforceStartGethUsed \<longrightarrow>
                     V cb (PROTOCOL_CONST_ID (process (snd (parse_args e V local_datadir
                             invocation_order opts p)))) v \<noteq> None)) \<longrightarrow>
       fst (parse_args e V local_datadir invocation_order opts p) = Inr ())) \<and>
   (opts ''start_geth'' = Some (VBool True) \<and> opts ''start_geth_port'' = Some (VInt n) \<longrightarrow>
      fst (parse_args e V local_datadir invocation_order opts p) \<noteq>
        Inl (UsageError ''start_geth_port''))"
proof -
  have tr: "trace (process (snd (parse_args e V local_datadir invocation_order opts p))) =
            trace p"
    by (simp add: parse_args_def process_params_trace)
  have fails: "(\<exists>name. fst (main e V local_datadir invocation_order opts p) =
                 Inl (UsageError name)) \<and>
      trace (snd (main e V local_datadir invocation_order opts p)) = trace p"
    if a: "opts ''start_geth_port'' \<noteq> None" "opts ''start_geth'' \<noteq> Some (VBool True)"
  proof -
    have "click_option ''start_geth_port'' IntT False True (Some EnforceStartGethUsed) VNone
        \<in> set (iter_params_for_processing invocation_order (start_params local_datadir))"
      using start_geth_port_lazy[of local_datadir]
      by (simp add: set_iter_params_for_processing)
    moreover have "set (iter_params_for_processing invocation_order
        (start_params local_datadir)) \<subseteq> set (start_params local_datadir)"
      by (simp add: set_iter_params_for_processing)
    ultimately obtain name where
      f: "fst (parse_args e V local_datadir invocation_order opts p) = Inl (UsageError name)"
      using port_without_start_geth_fails[of
          "iter_params_for_processing invocation_order (start_params local_datadir)"
          local_datadir "\<lparr>ctx_params = Map.empty, seen = [], process = p\<rparr>" opts e V] a
      by (auto simp add: parse_args_def)
    obtain r s2 where pa: "parse_args e V local_datadir invocation_order opts p = (r, s2)"
      by (cases "parse_args e V local_datadir invocation_order opts p") auto
    with f tr show ?thesis
      by (simp add: main_def)
  qed
  have not_rejected:
    "fst (parse_args e V local_datadir invocation_order opts p) \<noteq>
       Inl (UsageError ''start_geth_port'')"
    if "opts ''start_geth'' = Some (VBool True)"
      "opts ''start_geth_port'' = None \<or> opts ''start_geth_port'' = Some (VInt n)"
    using that parse_args_port_not_rejected[where opts = opts and e = e and V = V
        and d = local_datadir and given = invocation_order and p = p]
      param_value_start_geth_port[where opts = opts and e = e] by blast
  have passes: "fst (parse_args e V local_datadir invocation_order opts p) = Inr ()"
    if sg: "opts ''start_geth'' = Some (VBool True)"
      and acc: "\<forall>q \<in> set (start_params local_datadir).
           \<exists>v. param_value e opts q = Inr v \<and>
               (\<forall>cb. callback q = Some cb \<longrightarrow> cb \<noteq> PatchProtocolId \<longrightarrow>
                     cb \<noteq> EnforceStartGethUsed \<longrightarrow>
                     V cb (PROTOCOL_CONST_ID (process (snd (parse_args e V local_datadir
                             invocation_order opts p)))) v \<noteq> None)"
  proof -
    have "click_option ''protocol_id'' IntT True False (Some PatchProtocolId) VNone
            \<in> set (start_params local_datadir)"
      by (simp add: start_params_def)
    with acc obtain vp where vp: "param_value e opts
        (click_option ''protocol_id'' IntT True False (Some PatchProtocolId) VNone) = Inr vp"
      by blast
    obtain N s1 where N:
      "parse_args e V local_datadir invocation_order opts p = process_params e V opts N s1"
      "set N = {q \<in> set (start_params local_datadir). \<not> is_eager q}"
      "ctx_params s1 = Map.empty(''start_geth'' \<mapsto>
          (case opts ''start_geth'' of None \<Rightarrow> VBool False | Some g \<Rightarrow> g))"
      using parse_args_eager_then_lazy[where e = e and opts = opts and vp = vp and V = V
          and d = local_datadir and given = invocation_order and p = p] vp
      by blast
    have lazy: "\<forall>q \<in> set N. callback q \<noteq> Some PatchProtocolId"
      using N(2) lazy_start_params by blast
    from lazy_run[OF lazy, of e V opts s1] N(1)
    have c: "PROTOCOL_CONST_ID (process s1) =
             PROTOCOL_CONST_ID (process (snd (parse_args e V local_datadir
                             invocation_order opts p)))"
      by simp
    from N(3) sg have ctx: "ctx_params s1 ''start_geth'' = Some (VBool True)" by simp
    define c where "c = PROTOCOL_CONST_ID (process (snd (parse_args e V local_datadir
                             invocation_order opts p)))"
    have hyp: "\<forall>q \<in> set N. q \<in> set (start_params local_datadir) \<and> \<not> is_eager q \<and>
      (\<exists>v. param_value e opts q = Inr v \<and>
           (\<forall>cb. callback q = Some cb \<longrightarrow> cb \<noteq> PatchProtocolId \<longrightarrow>
                 cb \<noteq> EnforceStartGethUsed \<longrightarrow> V cb c v \<noteq> None))"
      unfolding c_def using N(2) acc by blast
    have c': "PROTOCOL_CONST_ID (process s1) = c"
      using c by (simp add: c_def)
    have "fst (process_params e V opts N s1) = Inr ()"
      using hyp ctx c' by (rule lazy_run_passes)
    with N(1) show ?thesis by simp
  qed
  from fails not_rejected passes show ?thesis by blast
qed

theorem start_geth_port_needs_start_geth_witness:
  "(\<exists>name. fst (main env0 accept_all ''/home/golem'' [''start_geth_port'']
                 [''start_geth_port'' \<mapsto> VInt 8545] proc0) = Inl (UsageError name)) \<and>
   trace (snd (main env0 accept_all ''/home/golem'' [''start_geth_port'']
                 [''start_geth_port'' \<mapsto> VInt 8545] proc0)) = trace proc0 \<and>
   fst (parse_args env0 accept_all ''/home/golem'' [''start_geth'']
          [''start_geth'' \<mapsto> VBool True] proc0) = Inr () \<and>
   fst (parse_args env0 accept_all ''/home/golem'' [''start_geth'', ''start_geth_port'']
          [''start_geth'' \<mapsto> VBool True, ''start_geth_port'' \<mapsto> VInt 8545] proc0) \<noteq>
     Inl (UsageError ''start_geth_port'')"
proof -
  have acc: "\<forall>q \<in> set (start_params ''/home/golem'').
      \<exists>v. param_value env0 [''start_geth'' \<mapsto> VBool True] q = Inr v \<and>
          (\<forall>cb. callback q = Some cb \<longrightarrow> cb \<noteq> PatchProtocolId \<longrightarrow>
                cb \<noteq> EnforceStartGethUsed \<longrightarrow>
                accept_all cb (PROTOCOL_CONST_ID (process (snd (parse_args env0 accept_all
                   ''/home/golem'' [''start_geth''] [''start_geth'' \<mapsto> VBool True]
                   proc0)))) v \<noteq> None)"
    by (simp add: start_params_def click_option_def param_value_def convert_def
        accept_all_def)
  from start_geth_port_needs_start_geth[where opts = "[''start_geth_port'' \<mapsto> VInt 8545]"
      and e = env0 and V = accept_all and local_datadir = "''/home/golem''"
      and invocation_order = "[''start_geth_port'']" and p = proc0]
  have a: "(\<exists>name. fst (main env0 accept_all ''/home/golem'' [''start_geth_port'']
                 [''start_geth_port'' \<mapsto> VInt 8545] proc0) = Inl (UsageError name)) \<and>
   trace (snd (main env0 accept_all ''/home/golem'' [''start_geth_port'']
                 [''start_geth_port'' \<mapsto> VInt 8545] proc0)) = trace proc0"
    by simp
  from start_geth_port_needs_start_geth[where opts = "[''start_geth'' \<mapsto> VBool True]"
      and e = env0 and V = accept_all and local_datadir = "''/home/golem''"
      and invocation_order = "[''start_geth'']" and p = proc0] acc
  have b: "fst (parse_args env0 accept_all ''/home/golem'' [''start_geth'']
          [''start_geth'' \<mapsto> VBool True] proc0) = Inr ()"
    by simp
  from start_geth_port_needs_start_geth[where
        opts = "[''start_geth'' \<mapsto> VBool True, ''start_geth_port'' \<mapsto> VInt 8545]"
      and n = 8545
      and e = env0 and V = accept_all and local_datadir = "''/home/golem''"
      and invocation_order = "[''start_geth'', ''start_geth_port'']" and p = proc0]
  have c: "fst (parse_args env0 accept_all ''/home/golem'' [''start_geth'', ''start_geth_port'']
          [''start_geth'' \<mapsto> VBool True, ''start_geth_port'' \<mapsto> VInt 8545] proc0) \<noteq>
     Inl (UsageError ''start_geth_port'')"
    by simp
  from a b c show ?thesis by blast
qed

end
